theory Spec2Isabelle
  imports Main
begin

section \<open>The request pipeline of apollo-server-core\<close>

text \<open>
  A shallow embedding of \<^verbatim>\<open>packages/apollo-server-core/src/requestPipeline.ts\<close>.
  The asynchronous function \<^verbatim>\<open>processGraphQLRequest\<close> becomes a pure function from the
  configuration, the behaviour of the external collaborators and the request context to
  \<^item> the outcome: \<open>Inr\<close> the value the returned promise resolves to, \<open>Inl\<close> the error it
    rejects with,
  \<^item> the request context as the run leaves it,
  \<^item> the trace: the calls made to the collaborators (cache, data sources, extension
    stack, dispatcher and its listeners, engine), in the order they are issued.

  Two conventions place an effect of a pending promise next to the call that starts it:
  the console warning of a failed cache write directly follows the write, and the
  listener calls of an asynchronous dispatcher hook directly follow the dispatcher call.
  Since \<^verbatim>\<open>sendResponse\<close> is returned without being awaited, the cleanup block in fact
  runs while the listeners' \<^verbatim>\<open>willSendResponse\<close> promises are pending; nothing below
  depends on the position of these listener calls relative to the cleanup.

  Extensions, plugins and listeners are observers: apart from the error a hook may
  reject with and the response the extension stack returns, they do not change the
  request context.
\<close>

subsection \<open>Errors\<close>

datatype error_kind =
    Syntax
  | Validation
  | PersistedQueryNotSupported
  | PersistedQueryNotFound
  | InvalidRequest
  | Internal
  | AppDefined string
  | Unclassified

record gerror =
  message :: string
  kind :: error_kind

text \<open>
  The error classes the pipeline instantiates. The two persisted-query classes are
  constructed without a message argument; the text their constructors supply is not
  part of this file and is left empty. A plain JavaScript \<^verbatim>\<open>Error\<close> carries no class.
\<close>

definition PersistedQueryNotSupportedError :: gerror where
  "PersistedQueryNotSupportedError = \<lparr>message = [], kind = PersistedQueryNotSupported\<rparr>"

definition PersistedQueryNotFoundError :: gerror where
  "PersistedQueryNotFoundError = \<lparr>message = [], kind = PersistedQueryNotFound\<rparr>"

definition InvalidGraphQLRequestError :: "string \<Rightarrow> gerror" where
  "InvalidGraphQLRequestError msg = \<lparr>message = msg, kind = InvalidRequest\<rparr>"

definition Error :: "string \<Rightarrow> gerror" where
  "Error msg = \<lparr>message = msg, kind = Unclassified\<rparr>"

text \<open>
  Modelled from the spec: \<^verbatim>\<open>fromGraphQLError\<close> of apollo-server-errors is not in the
  source tree. With an error class the result is an error of that kind; without one the
  error keeps the kind it was reported with, and an error without a class becomes
  \<open>Internal\<close>.
\<close>

definition fromGraphQLError :: "gerror \<Rightarrow> error_kind option \<Rightarrow> gerror" where
  "fromGraphQLError err errorClass =
     (case errorClass of
        Some k \<Rightarrow> err\<lparr>kind := k\<rparr>
      | None \<Rightarrow> (if kind err = Unclassified then err\<lparr>kind := Internal\<rparr> else err))"

subsection \<open>Responses\<close>

datatype callback = RequestDidEndCallback

text \<open>
  One type for every response-like object: a plain \<^verbatim>\<open>GraphQLResponse\<close> has the
  envelope fields absent, a \<^verbatim>\<open>DeferredGraphQLResponse\<close> has them present. \<open>others\<close>
  holds any further own properties. An extension stack is identified by the names of
  its extensions.
\<close>

datatype gqlobj = GqlObj
  (errors: "gerror list option")
  (data: "string option")
  (extensions: "(string \<times> string) list option")
  (http: "string option")
  (others: "(string \<times> string) list")
  (initialResponse: "gqlobj option")
  (deferredPatches: "string list option")
  (requestDidEnd: "callback option")
  (extensionStack: "string list option")

definition isDeferredGraphQLResponse :: "gqlobj \<Rightarrow> bool" where
  "isDeferredGraphQLResponse result \<longleftrightarrow>
     initialResponse result \<noteq> None \<and> deferredPatches result \<noteq> None"

text \<open>
  The object literal \<^verbatim>\<open>{...base, errors: r.errors, data: r.data, extensions: r.extensions}\<close>;
  spreading \<^verbatim>\<open>undefined\<close> contributes no property.
\<close>

fun spread_response :: "gqlobj option \<Rightarrow> gqlobj \<Rightarrow> gqlobj" where
  "spread_response None r =
     GqlObj (errors r) (data r) (extensions r) None [] None None None None"
| "spread_response (Some (GqlObj e d x h os ir dp cb st)) r =
     GqlObj (errors r) (data r) (extensions r) h os ir dp cb st"

text \<open>The assignment \<^verbatim>\<open>response.extensions = formattedExtensions\<close>.\<close>

fun set_extensions :: "gqlobj \<Rightarrow> (string \<times> string) list \<Rightarrow> gqlobj" where
  "set_extensions (GqlObj e d x h os ir dp cb st) fx = GqlObj e d (Some fx) h os ir dp cb st"

text \<open>The object literal \<^verbatim>\<open>{...response, initialResponse: r}\<close>.\<close>

fun set_initialResponse :: "gqlobj \<Rightarrow> gqlobj \<Rightarrow> gqlobj" where
  "set_initialResponse (GqlObj e d x h os ir dp cb st) r = GqlObj e d x h os (Some r) dp cb st"

subsection \<open>Request, request context, configuration\<close>

record persisted_query =
  version :: int
  sha256Hash :: string

record request_extensions =
  persistedQuery :: "persisted_query option"

record request =
  query :: "string option"
  operationName :: "string option"
  variables :: "string option"
  req_extensions :: "request_extensions option"
  req_http :: "string option"

type_synonym document = string

record operation =
  op_name :: "string option"

datatype context_value =
    UserValue string
  | ExtensionStackValue "string list"
  | DataSourcesValue "string list"

text \<open>
  \<open>rc_operationName\<close>: \<open>None\<close> is \<^verbatim>\<open>undefined\<close> (not yet set), \<open>Some None\<close> is \<^verbatim>\<open>null\<close>.
\<close>

record request_context =
  rc_request :: request
  rc_response :: "gqlobj option"
  rc_context :: "string \<rightharpoonup> context_value"
  rc_queryHash :: "string option"
  rc_document :: "document option"
  rc_operation :: "operation option"
  rc_operationName :: "string option option"

text \<open>
  What a call of the cache's \<^verbatim>\<open>set\<close> does: it returns a promise that is fulfilled, it
  returns a promise that is rejected, or it throws before it returns anything.
\<close>

datatype set_outcome = Fulfils | Rejects gerror | Throws gerror

text \<open>
  The persisted-query cache: \<open>cache_get\<close> is what the promise of \<^verbatim>\<open>get\<close> resolves to,
  \<open>cache_set\<close> is what the call of \<^verbatim>\<open>set\<close> does.
\<close>

record kv_cache =
  cache_get :: "string \<Rightarrow> string option"
  cache_set :: "string \<Rightarrow> string \<Rightarrow> set_outcome"

record persisted_query_options =
  pq_cache :: "kv_cache option"

record data_source =
  ds_initialize :: bool

text \<open>
  A listener exposes any subset of the five hooks. For a did-start hook \<open>None\<close> means
  the hook is absent and \<open>Some b\<close> that it is present and returns an end-callback iff
  \<open>b\<close>. For the two asynchronous hooks the function gives the error the returned promise
  rejects with, if any.
\<close>

record listener =
  parsingDidStart :: "bool option"
  validationDidStart :: "bool option"
  executionDidStart :: "bool option"
  didResolveOperation :: "(request_context \<Rightarrow> gerror option) option"
  willSendResponse :: "(request_context \<Rightarrow> gerror option) option"

record plugin =
  requestDidStart :: "(request_context \<Rightarrow> listener option) option"

datatype rule = CannotDeferNonNullableFields | Rule string

datatype root_value = RootFunction "document \<Rightarrow> string" | RootValue string

record config =
  schema :: string
  rootValue :: "root_value option"
  validationRules :: "rule list option"
  dataSources :: "(string \<times> data_source) list option"
  cfg_extensions :: "string list option"
  tracing :: bool
  persistedQueries :: "persisted_query_options option"
  cacheControl :: "string option"
  formatResponse :: "(gqlobj \<Rightarrow> gqlobj) option"
  plugins :: "plugin list option"
  enableDefer :: bool

subsection \<open>External collaborators\<close>

record exec_args =
  ea_schema :: string
  ea_document :: document
  ea_rootValue :: "string option"
  ea_contextValue :: "string \<rightharpoonup> context_value"
  ea_variableValues :: "string option"
  ea_operationName :: "string option"
  ea_enableDefer :: bool

datatype exec_result =
    ExecutionResult gqlobj
  | DeferredExecutionResult gqlobj "string list"

text \<open>
  Modelled from the spec: \<^verbatim>\<open>isDeferredExecutionResult\<close> of \<^verbatim>\<open>./execute\<close> is not in the
  source tree. A deferred execution result is the variant with \<^verbatim>\<open>initialResult\<close> and
  \<^verbatim>\<open>deferredPatches\<close>.
\<close>

fun isDeferredExecutionResult :: "exec_result \<Rightarrow> bool" where
  "isDeferredExecutionResult (DeferredExecutionResult _ _) = True"
| "isDeferredExecutionResult (ExecutionResult _) = False"

text \<open>
  What the pipeline takes from outside this file: the SHA-256 hex digest of Node's
  \<^verbatim>\<open>crypto\<close>, the graphql-js entry points, the deferred \<^verbatim>\<open>execute\<close>, and the two
  methods of the extension stack that return a value.
\<close>

record engine =
  sha256_hex :: "string \<Rightarrow> string"
  graphql_parse :: "string \<Rightarrow> gerror + document"
  specifiedRules :: "rule list"
  graphql_validate :: "string \<Rightarrow> document \<Rightarrow> rule list \<Rightarrow> gerror list"
  getOperationAST :: "document \<Rightarrow> string option \<Rightarrow> operation option"
  executeWithDefer :: "exec_args \<Rightarrow> gerror + exec_result"
  stack_format :: "string list \<Rightarrow> (string \<times> string) list"
  stack_willSendResponse :: "string list \<Rightarrow> gqlobj \<Rightarrow> gqlobj"

subsection \<open>Trace\<close>

datatype stage = ParsingStage | ValidationStage | ExecutionStage

datatype hook = DidResolveOperation | WillSendResponse

text \<open>
  \<open>Ext\<dots>\<close> are calls to the extension stack, \<open>Dispatch\<dots>\<close> calls to the plugin dispatcher,
  \<open>Listener\<dots>\<close> the calls the dispatcher makes to the listener of the plugin with the
  given index; they are listed directly after the dispatcher call that causes them.
  A did-end event carries the errors passed to the end-callback (none on success).
  \<open>SetOperation\<close> is the assignment of \<^verbatim>\<open>operation\<close> and \<^verbatim>\<open>operationName\<close> to the request
  context, which the plugins hold by reference; it carries the two fields as the
  assignment leaves them.
\<close>

datatype event =
    PluginRequestDidStart nat
  | DataSourceInitialize string
  | CacheGet string
  | CacheSet string string
  | ConsoleWarn gerror
  | ExtRequestDidStart bool bool
  | ExtRequestDidEnd
  | ExtDidStart stage
  | ExtDidEnd stage
  | ExtFormat
  | ExtWillSendResponse gqlobj
  | EngineParse string
  | EngineValidate document "rule list"
  | EngineExecute document "string option"
  | DispatchDidStart stage
  | ListenerDidStart nat stage
  | DispatchDidEnd stage "gerror list"
  | ListenerDidEnd nat stage "gerror list"
  | SetOperation "operation option" "string option option"
  | DispatchHook hook
  | ListenerHook nat hook "gerror option"

type_synonym run = "event list \<times> request_context \<times> (gerror + gqlobj)"

record result =
  trace :: "event list"
  final_context :: request_context
  outcome :: "gerror + gqlobj"

subsection \<open>The plugin dispatcher\<close>

type_synonym dispatcher = "(nat \<times> listener) list"

fun didStartHook :: "stage \<Rightarrow> listener \<Rightarrow> bool option" where
  "didStartHook ParsingStage l = parsingDidStart l"
| "didStartHook ValidationStage l = validationDidStart l"
| "didStartHook ExecutionStage l = executionDidStart l"

fun asyncHook :: "hook \<Rightarrow> listener \<Rightarrow> (request_context \<Rightarrow> gerror option) option" where
  "asyncHook DidResolveOperation l = didResolveOperation l"
| "asyncHook WillSendResponse l = willSendResponse l"

text \<open>
  Modelled from the spec: the \<^verbatim>\<open>Dispatcher\<close> class of \<^verbatim>\<open>./utils/dispatcher\<close> is not in
  the source tree. \<^verbatim>\<open>invokeDidStartHook\<close> invokes every present implementation in
  registration order and collects the returned end-callbacks; the aggregate end-callback
  invokes each of them, in the same order, with the error argument it is given.
\<close>

definition invokeDidStartHook :: "stage \<Rightarrow> dispatcher \<Rightarrow> event list \<times> nat list" where
  "invokeDidStartHook st targets =
     (map (\<lambda>(i, l). ListenerDidStart i st) (filter (\<lambda>(i, l). didStartHook st l \<noteq> None) targets),
      map fst (filter (\<lambda>(i, l). didStartHook st l = Some True) targets))"

definition didEnd :: "stage \<Rightarrow> nat list \<Rightarrow> gerror list \<Rightarrow> event list" where
  "didEnd st callbacks errs = map (\<lambda>i. ListenerDidEnd i st errs) callbacks"

text \<open>
  Modelled from the spec: \<^verbatim>\<open>invokeHookAsync\<close> invokes the present implementations in
  registration order and awaits each in turn; a rejection propagates at once and the
  remaining listeners are skipped. The result is the trace and the rejection, if any.
\<close>

fun invokeHookAsync ::
  "hook \<Rightarrow> dispatcher \<Rightarrow> request_context \<Rightarrow> event list \<times> gerror option" where
  "invokeHookAsync h [] rc = ([], None)"
| "invokeHookAsync h ((i, l) # targets) rc =
     (case asyncHook h l of
        None \<Rightarrow> invokeHookAsync h targets rc
      | Some method \<Rightarrow>
          (case method rc of
             Some e \<Rightarrow> ([ListenerHook i h (Some e)], Some e)
           | None \<Rightarrow>
               (let (evs, rejection) = invokeHookAsync h targets rc
                in (ListenerHook i h None # evs, rejection))))"

subsection \<open>Initialisation\<close>

definition computeQueryHash :: "engine \<Rightarrow> string \<Rightarrow> string" where
  "computeQueryHash eng q = sha256_hex eng q"

text \<open>
  \<^verbatim>\<open>initializeExtensionStack\<close>: the extensions made by the configured factories, then the
  tracing extension, then the cache-control extension.
\<close>

definition initializeExtensionStack :: "config \<Rightarrow> string list" where
  "initializeExtensionStack cfg =
     (case cfg_extensions cfg of Some fs \<Rightarrow> fs | None \<Rightarrow> [])
     @ (if tracing cfg then [''TracingExtension''] else [])
     @ (case cacheControl cfg of Some _ \<Rightarrow> [''CacheControlExtension''] | None \<Rightarrow> [])"

text \<open>
  The loop of \<^verbatim>\<open>initializeRequestListenerDispatcher\<close> over \<^verbatim>\<open>config.plugins\<close>, from
  plugin index \<open>i\<close> on.
\<close>

fun requestListeners :: "nat \<Rightarrow> plugin list \<Rightarrow> request_context \<Rightarrow> event list \<times> dispatcher" where
  "requestListeners i [] rc = ([], [])"
| "requestListeners i (p # ps) rc =
     (case requestDidStart p of
        None \<Rightarrow> requestListeners (Suc i) ps rc
      | Some f \<Rightarrow>
          (let (evs, ls) = requestListeners (Suc i) ps rc
           in (PluginRequestDidStart i # evs,
               (case f rc of Some l \<Rightarrow> (i, l) # ls | None \<Rightarrow> ls))))"

definition initializeRequestListenerDispatcher ::
  "config \<Rightarrow> request_context \<Rightarrow> event list \<times> dispatcher" where
  "initializeRequestListenerDispatcher cfg rc =
     (case plugins cfg of
        Some ps \<Rightarrow> requestListeners 0 ps rc
      | None \<Rightarrow> ([], []))"

text \<open>The loop of \<^verbatim>\<open>initializeDataSources\<close> over \<^verbatim>\<open>Object.values(dataSources)\<close>.\<close>

fun initializeEach :: "(string \<times> data_source) list \<Rightarrow> event list" where
  "initializeEach [] = []"
| "initializeEach ((name, dataSource) # rest) =
     (if ds_initialize dataSource then DataSourceInitialize name # initializeEach rest
      else initializeEach rest)"

definition initializeDataSources ::
  "config \<Rightarrow> request_context \<Rightarrow> event list \<times> (gerror + request_context)" where
  "initializeDataSources cfg rc =
     (case dataSources cfg of
        None \<Rightarrow> ([], Inr rc)
      | Some ds \<Rightarrow>
          (let ctx = rc_context rc;
               evs = initializeEach ds
           in if ctx ''dataSources'' \<noteq> None
              then (evs, Inl (Error
                ''Please use the dataSources config option instead of putting dataSources on the context yourself.''))
              else (evs, Inr (rc\<lparr>rc_context := ctx(''dataSources'' \<mapsto> DataSourcesValue (map fst ds))\<rparr>))))"

text \<open>The condition under which \<^verbatim>\<open>initializeDataSources\<close> throws.\<close>

definition dataSourcesConflict :: "config \<Rightarrow> request_context \<Rightarrow> bool" where
  "dataSourcesConflict cfg rc \<longleftrightarrow> dataSources cfg \<noteq> None \<and> rc_context rc ''dataSources'' \<noteq> None"

subsection \<open>Resolving the query text\<close>

record resolved =
  r_query :: string
  r_queryHash :: string
  persistedQueryHit :: bool
  persistedQueryRegister :: bool

text \<open>
  Lines 121 to 169 of \<^verbatim>\<open>processGraphQLRequest\<close>. A \<^verbatim>\<open>throw\<close> is \<open>Inl\<close>. The cache
  write is not awaited: a rejection of its promise goes to \<^verbatim>\<open>console.warn\<close>, listed
  here directly after the write. The call of \<^verbatim>\<open>set\<close> itself is evaluated before
  \<^verbatim>\<open>Promise.resolve\<close> and outside any \<^verbatim>\<open>try\<close>, so an exception thrown by it ends
  the function like a \<^verbatim>\<open>throw\<close>. Truthiness tests are written out: an empty string is
  falsy. \<open>request_persistedQuery\<close> is \<^verbatim>\<open>extensions && extensions.persistedQuery\<close>,
  \<open>config_cache\<close> is \<^verbatim>\<open>config.persistedQueries && config.persistedQueries.cache\<close>.
\<close>

definition request_persistedQuery :: "request \<Rightarrow> persisted_query option" where
  "request_persistedQuery req =
     (case req_extensions req of Some exts \<Rightarrow> persistedQuery exts | None \<Rightarrow> None)"

definition config_cache :: "config \<Rightarrow> kv_cache option" where
  "config_cache cfg = (case persistedQueries cfg of Some opts \<Rightarrow> pq_cache opts | None \<Rightarrow> None)"

definition resolveQuery :: "config \<Rightarrow> engine \<Rightarrow> request \<Rightarrow> event list \<times> (gerror + resolved)" where
  "resolveQuery cfg eng req =
     (case request_persistedQuery req of
        Some pq \<Rightarrow>
          (case config_cache cfg of
             None \<Rightarrow> ([], Inl PersistedQueryNotSupportedError)
           | Some cache \<Rightarrow>
               if version pq \<noteq> 1
               then ([], Inl (InvalidGraphQLRequestError ''Unsupported persisted query version''))
               else
                 (let queryHash = sha256Hash pq in
                  case query req of
                    None \<Rightarrow>
                      (case cache_get cache (''apq:'' @ queryHash) of
                         Some q \<Rightarrow>
                           if q \<noteq> []
                           then ([CacheGet (''apq:'' @ queryHash)],
                                 Inr \<lparr>r_query = q, r_queryHash = queryHash,
                                      persistedQueryHit = True, persistedQueryRegister = False\<rparr>)
                           else ([CacheGet (''apq:'' @ queryHash)], Inl PersistedQueryNotFoundError)
                       | None \<Rightarrow> ([CacheGet (''apq:'' @ queryHash)], Inl PersistedQueryNotFoundError))
                  | Some q \<Rightarrow>
                      (let computedQueryHash = computeQueryHash eng q in
                       if queryHash \<noteq> computedQueryHash
                       then ([], Inl (InvalidGraphQLRequestError ''provided sha does not match query''))
                       else
                         (case cache_set cache (''apq:'' @ queryHash) q of
                            Throws e \<Rightarrow> ([CacheSet (''apq:'' @ queryHash) q], Inl e)
                          | Rejects e \<Rightarrow>
                              ([CacheSet (''apq:'' @ queryHash) q, ConsoleWarn e],
                               Inr \<lparr>r_query = q, r_queryHash = queryHash,
                                    persistedQueryHit = False, persistedQueryRegister = True\<rparr>)
                          | Fulfils \<Rightarrow>
                              ([CacheSet (''apq:'' @ queryHash) q],
                               Inr \<lparr>r_query = q, r_queryHash = queryHash,
                                    persistedQueryHit = False, persistedQueryRegister = True\<rparr>)))))
      | None \<Rightarrow>
          (case query req of
             Some q \<Rightarrow>
               if q \<noteq> []
               then ([], Inr \<lparr>r_query = q, r_queryHash = computeQueryHash eng q,
                              persistedQueryHit = False, persistedQueryRegister = False\<rparr>)
               else ([], Inl (InvalidGraphQLRequestError ''Must provide query string.''))
           | None \<Rightarrow> ([], Inl (InvalidGraphQLRequestError ''Must provide query string.''))))"

subsection \<open>Sending\<close>

text \<open>
  \<^verbatim>\<open>sendResponse\<close>. The deferred branch merges into the initial response of the
  persisted response and does not call the dispatcher; the complete branch merges into
  the persisted response itself and then awaits the dispatcher's \<^verbatim>\<open>willSendResponse\<close>.
  The function is asynchronous: a failure inside it is a rejection of the promise it
  returns, never an exception at the call site.
\<close>

definition sendResponse ::
  "engine \<Rightarrow> string list \<Rightarrow> dispatcher \<Rightarrow> request_context \<Rightarrow> gqlobj \<Rightarrow> run" where
  "sendResponse eng stack dispatcher requestContext response =
     (case (isDeferredGraphQLResponse response, initialResponse response) of
        (True, Some initialResp) \<Rightarrow>
          (let requestContextInitialResponse =
                 (case rc_response requestContext of
                    Some persisted \<Rightarrow> initialResponse persisted
                  | None \<Rightarrow> None);
               graphqlResponse = spread_response requestContextInitialResponse initialResp;
               r = stack_willSendResponse eng stack graphqlResponse;
               stored = set_initialResponse response r
           in ([ExtWillSendResponse graphqlResponse],
               requestContext\<lparr>rc_response := Some stored\<rparr>,
               Inr stored))
      | _ \<Rightarrow>
          (let graphqlResponse = spread_response (rc_response requestContext) response;
               stored = stack_willSendResponse eng stack graphqlResponse;
               requestContext' = requestContext\<lparr>rc_response := Some stored\<rparr>;
               (evs, rejection) = invokeHookAsync WillSendResponse dispatcher requestContext'
           in (ExtWillSendResponse graphqlResponse # DispatchHook WillSendResponse # evs,
               requestContext',
               (case rejection of Some e \<Rightarrow> Inl e | None \<Rightarrow> Inr stored))))"

datatype error_or_errors = SingleError gerror | ErrorArray "gerror list"

text \<open>
  The argument that \<^verbatim>\<open>sendErrorResponse\<close> builds: an object with the single property
  \<^verbatim>\<open>errors\<close>. A single error is put into an array first.
\<close>

definition errorResponse :: "error_or_errors \<Rightarrow> error_kind option \<Rightarrow> gqlobj" where
  "errorResponse errorOrErrors errorClass =
     (let errs = (case errorOrErrors of ErrorArray es \<Rightarrow> es | SingleError e \<Rightarrow> [e])
      in GqlObj (Some (map (\<lambda>err. fromGraphQLError err errorClass) errs))
           None None None [] None None None None)"

definition sendErrorResponse ::
  "engine \<Rightarrow> string list \<Rightarrow> dispatcher \<Rightarrow> request_context \<Rightarrow> error_or_errors \<Rightarrow>
   error_kind option \<Rightarrow> run" where
  "sendErrorResponse eng stack dispatcher requestContext errorOrErrors errorClass =
     sendResponse eng stack dispatcher requestContext (errorResponse errorOrErrors errorClass)"

subsection \<open>The stages\<close>

text \<open>The inner functions \<^verbatim>\<open>parse\<close>, \<^verbatim>\<open>validate\<close> and \<^verbatim>\<open>execute\<close>.\<close>

definition parse :: "engine \<Rightarrow> string \<Rightarrow> event list \<times> (gerror + document)" where
  "parse eng q =
     ([ExtDidStart ParsingStage, EngineParse q, ExtDidEnd ParsingStage], graphql_parse eng q)"

definition validate :: "config \<Rightarrow> engine \<Rightarrow> document \<Rightarrow> event list \<times> gerror list" where
  "validate cfg eng doc =
     (let rules = specifiedRules eng @ [CannotDeferNonNullableFields];
          rules = (case validationRules cfg of Some custom \<Rightarrow> rules @ custom | None \<Rightarrow> rules)
      in ([ExtDidStart ValidationStage, EngineValidate doc rules, ExtDidEnd ValidationStage],
          graphql_validate eng (schema cfg) doc rules))"

definition execute ::
  "config \<Rightarrow> engine \<Rightarrow> request_context \<Rightarrow> document \<Rightarrow> string option \<Rightarrow> string option \<Rightarrow>
   event list \<times> (gerror + exec_result)" where
  "execute cfg eng requestContext doc opName vars =
     (let executionArgs =
            \<lparr>ea_schema = schema cfg,
             ea_document = doc,
             ea_rootValue =
               (case rootValue cfg of
                  Some (RootFunction f) \<Rightarrow> Some (f doc)
                | Some (RootValue v) \<Rightarrow> Some v
                | None \<Rightarrow> None),
             ea_contextValue = rc_context requestContext,
             ea_variableValues = vars,
             ea_operationName = opName,
             ea_enableDefer = enableDefer cfg\<rparr>
      in ([ExtDidStart ExecutionStage, EngineExecute doc opName, ExtDidEnd ExecutionStage],
          executeWithDefer eng executionArgs))"

text \<open>
  Lines 258 to 294 without the end-callback: from the result of \<^verbatim>\<open>execute\<close> to the
  value handed to \<^verbatim>\<open>sendResponse\<close>. The variable \<open>isDeferred\<close> here is the one declared
  inside the \<^verbatim>\<open>try\<close> block (line 249).
\<close>

definition formatOutput :: "config \<Rightarrow> engine \<Rightarrow> string list \<Rightarrow> exec_result \<Rightarrow> gqlobj" where
  "formatOutput cfg eng stack res =
     (let isDeferred = isDeferredExecutionResult res;
          response =
            (case res of
               DeferredExecutionResult initialResult _ \<Rightarrow> initialResult
             | ExecutionResult r \<Rightarrow> r);
          patches =
            (case res of
               DeferredExecutionResult _ ps \<Rightarrow> Some ps
             | ExecutionResult _ \<Rightarrow> None);
          formattedExtensions = stack_format eng stack;
          response =
            (if formattedExtensions \<noteq> [] then set_extensions response formattedExtensions
             else response);
          response = (case formatResponse cfg of Some f \<Rightarrow> f response | None \<Rightarrow> response)
      in if isDeferred
         then GqlObj None None None None [] (Some response) patches
                (Some RequestDidEndCallback) (Some stack)
         else response)"

text \<open>
  Lines 238 to 300: the execution did-start hook and the inner \<^verbatim>\<open>try\<close>/\<^verbatim>\<open>catch\<close>.
  The \<^verbatim>\<open>catch\<close> sees a failure of the awaited \<^verbatim>\<open>execute\<close>. The promise of
  \<^verbatim>\<open>sendResponse\<close> is returned without being awaited, so its rejection is the
  rejection of the whole call and does not enter the \<^verbatim>\<open>catch\<close>.
\<close>

definition executionStage ::
  "config \<Rightarrow> engine \<Rightarrow> string list \<Rightarrow> dispatcher \<Rightarrow> request_context \<Rightarrow> document \<Rightarrow> run" where
  "executionStage cfg eng stack dispatcher requestContext doc =
     (let request = rc_request requestContext;
          (startEvs, executionDidEnd) = invokeDidStartHook ExecutionStage dispatcher;
          (execEvs, res) =
             execute cfg eng requestContext doc (operationName request) (variables request);
          started = DispatchDidStart ExecutionStage # startEvs @ execEvs
      in case res of
           Inl executionError \<Rightarrow>
             (let (sendEvs, requestContext', out) =
                    sendErrorResponse eng stack dispatcher requestContext
                      (SingleError executionError) None
              in (started
                    @ DispatchDidEnd ExecutionStage [executionError]
                    # didEnd ExecutionStage executionDidEnd [executionError]
                    @ sendEvs,
                  requestContext', out))
         | Inr res' \<Rightarrow>
             (let output = formatOutput cfg eng stack res';
                  (sendEvs, requestContext', out) =
                    sendResponse eng stack dispatcher requestContext output
              in (started
                    @ ExtFormat
                    # DispatchDidEnd ExecutionStage []
                    # didEnd ExecutionStage executionDidEnd []
                    @ sendEvs,
                  requestContext', out)))"

text \<open>
  The expression \<^verbatim>\<open>(operation && operation.name && operation.name.value) || null\<close> of
  line 228; \<open>None\<close> is \<^verbatim>\<open>null\<close>.
\<close>

definition operationNameOf :: "operation option \<Rightarrow> string option" where
  "operationNameOf operation =
     (case operation of
        Some opn \<Rightarrow>
          (case op_name opn of
             Some n \<Rightarrow> if n \<noteq> [] then Some n else None
           | None \<Rightarrow> None)
      | None \<Rightarrow> None)"

text \<open>Lines 223 to 228: the operation and its name are put on the request context.\<close>

definition resolveOperation :: "engine \<Rightarrow> request_context \<Rightarrow> document \<Rightarrow> request_context" where
  "resolveOperation eng requestContext doc =
     (let operation = getOperationAST eng doc (operationName (rc_request requestContext));
          requestContext = requestContext\<lparr>rc_operation := operation\<rparr>
      in requestContext\<lparr>rc_operationName := Some (operationNameOf operation)\<rparr>)"

text \<open>
  Lines 223 to 236, then the execution stage. A rejection of the awaited
  \<^verbatim>\<open>didResolveOperation\<close> hook is an exception at line 230, which lies outside the
  inner \<^verbatim>\<open>try\<close>/\<^verbatim>\<open>catch\<close>.
\<close>

definition operationStage ::
  "config \<Rightarrow> engine \<Rightarrow> string list \<Rightarrow> dispatcher \<Rightarrow> request_context \<Rightarrow> document \<Rightarrow> run" where
  "operationStage cfg eng stack dispatcher requestContext doc =
     (let requestContext = resolveOperation eng requestContext doc;
          resolved = SetOperation (rc_operation requestContext) (rc_operationName requestContext);
          (hookEvs, rejection) = invokeHookAsync DidResolveOperation dispatcher requestContext
      in case rejection of
           Some e \<Rightarrow>
             (resolved # DispatchHook DidResolveOperation # hookEvs, requestContext, Inl e)
         | None \<Rightarrow>
             (let (evs, requestContext', out) =
                    executionStage cfg eng stack dispatcher requestContext doc
              in (resolved # DispatchHook DidResolveOperation # hookEvs @ evs,
                  requestContext', out)))"

text \<open>Lines 203 to 217, then the operation stage.\<close>

definition validationStage ::
  "config \<Rightarrow> engine \<Rightarrow> string list \<Rightarrow> dispatcher \<Rightarrow> request_context \<Rightarrow> document \<Rightarrow> run" where
  "validationStage cfg eng stack dispatcher requestContext doc =
     (let requestContext = requestContext\<lparr>rc_document := Some doc\<rparr>;
          (startEvs, validationDidEnd) = invokeDidStartHook ValidationStage dispatcher;
          (valEvs, validationErrors) = validate cfg eng doc;
          started = DispatchDidStart ValidationStage # startEvs @ valEvs
      in if validationErrors = []
         then
           (let (evs, requestContext', out) =
                  operationStage cfg eng stack dispatcher requestContext doc
            in (started
                  @ DispatchDidEnd ValidationStage []
                  # didEnd ValidationStage validationDidEnd []
                  @ evs,
                requestContext', out))
         else
           (let (sendEvs, requestContext', out) =
                  sendErrorResponse eng stack dispatcher requestContext
                    (ErrorArray validationErrors) (Some Validation)
            in (started
                  @ DispatchDidEnd ValidationStage validationErrors
                  # didEnd ValidationStage validationDidEnd validationErrors
                  @ sendEvs,
                requestContext', out)))"

text \<open>
  Lines 192 to 300, the body of the outer \<^verbatim>\<open>try\<close>: parsing, then the validation
  stage. \<open>parsingDidEnd\<close> are the end-callbacks collected at line 185.
\<close>

definition tryBlock ::
  "config \<Rightarrow> engine \<Rightarrow> string list \<Rightarrow> dispatcher \<Rightarrow> request_context \<Rightarrow> string \<Rightarrow>
   nat list \<Rightarrow> run" where
  "tryBlock cfg eng stack dispatcher requestContext q parsingDidEnd =
     (let (parseEvs, parsed) = parse eng q
      in case parsed of
           Inr doc \<Rightarrow>
             (let (evs, requestContext', out) =
                    validationStage cfg eng stack dispatcher requestContext doc
              in (parseEvs
                    @ DispatchDidEnd ParsingStage []
                    # didEnd ParsingStage parsingDidEnd []
                    @ evs,
                  requestContext', out))
         | Inl syntaxError \<Rightarrow>
             (let (sendEvs, requestContext', out) =
                    sendErrorResponse eng stack dispatcher requestContext
                      (SingleError syntaxError) (Some Syntax)
              in (parseEvs
                    @ DispatchDidEnd ParsingStage [syntaxError]
                    # didEnd ParsingStage parsingDidEnd [syntaxError]
                    @ sendEvs,
                  requestContext', out)))"

subsection \<open>The orchestrator\<close>

text \<open>
  Lines 119 to 305 of \<^verbatim>\<open>processGraphQLRequest\<close>: what follows the initialisation.
  \<open>isDeferred\<close> is the variable declared at line 190, the one the \<^verbatim>\<open>finally\<close> block
  reads; the declaration at line 249 shadows it inside the \<^verbatim>\<open>try\<close> block, so nothing
  assigns to it.
\<close>

definition pipeline ::
  "config \<Rightarrow> engine \<Rightarrow> string list \<Rightarrow> dispatcher \<Rightarrow> request_context \<Rightarrow> result" where
  "pipeline cfg eng stack dispatcher requestContext =
     (let request = rc_request requestContext;
          (resolveEvs, resolution) = resolveQuery cfg eng request
      in case resolution of
           Inl e \<Rightarrow> \<lparr>trace = resolveEvs, final_context = requestContext, outcome = Inl e\<rparr>
         | Inr res \<Rightarrow>
             (let requestContext = requestContext\<lparr>rc_queryHash := Some (r_queryHash res)\<rparr>;
                  (startEvs, parsingDidEnd) = invokeDidStartHook ParsingStage dispatcher;
                  isDeferred = False;
                  (evs, requestContext', out) =
                    tryBlock cfg eng stack dispatcher requestContext (r_query res) parsingDidEnd;
                  finallyEvs = (if \<not> isDeferred then [ExtRequestDidEnd] else [])
              in \<lparr>trace = resolveEvs
                    @ ExtRequestDidStart (persistedQueryHit res) (persistedQueryRegister res)
                    # DispatchDidStart ParsingStage
                    # startEvs @ evs @ finallyEvs,
                  final_context = requestContext', outcome = out\<rparr>))"

text \<open>
  \<^verbatim>\<open>processGraphQLRequest\<close>: lines 111 to 117, then the pipeline. An exception of
  \<^verbatim>\<open>initializeDataSources\<close> is a rejection of the returned promise.
\<close>

definition processGraphQLRequest :: "config \<Rightarrow> engine \<Rightarrow> request_context \<Rightarrow> result" where
  "processGraphQLRequest cfg eng requestContext =
     (let stack = initializeExtensionStack cfg;
          requestContext = requestContext
            \<lparr>rc_context := (rc_context requestContext)(''_extensionStack'' \<mapsto> ExtensionStackValue stack)\<rparr>;
          (pluginEvs, dispatcher) = initializeRequestListenerDispatcher cfg requestContext;
          (dsEvs, initialized) = initializeDataSources cfg requestContext
      in case initialized of
           Inl e \<Rightarrow>
             \<lparr>trace = pluginEvs @ dsEvs, final_context = requestContext, outcome = Inl e\<rparr>
         | Inr requestContext \<Rightarrow>
             (let res = pipeline cfg eng stack dispatcher requestContext
              in res\<lparr>trace := pluginEvs @ dsEvs @ trace res\<rparr>))"

subsection \<open>Reading a trace\<close>

text \<open>
  The position in the pipeline that an event belongs to: 0 plugin set-up, 1 data-source
  initialisation, 2 query resolution, 3 the per-request scope, 4 parsing, 5 validation,
  6 operation resolution, 7 execution, 8 sending.
\<close>

fun stage_level :: "stage \<Rightarrow> nat" where
  "stage_level ParsingStage = 4"
| "stage_level ValidationStage = 5"
| "stage_level ExecutionStage = 7"

fun hook_level :: "hook \<Rightarrow> nat" where
  "hook_level DidResolveOperation = 6"
| "hook_level WillSendResponse = 8"

fun ev_stage :: "event \<Rightarrow> nat" where
  "ev_stage (PluginRequestDidStart _) = 0"
| "ev_stage (DataSourceInitialize _) = 1"
| "ev_stage (CacheGet _) = 2"
| "ev_stage (CacheSet _ _) = 2"
| "ev_stage (ConsoleWarn _) = 2"
| "ev_stage (ExtRequestDidStart _ _) = 3"
| "ev_stage ExtRequestDidEnd = 3"
| "ev_stage (ExtDidStart st) = stage_level st"
| "ev_stage (ExtDidEnd st) = stage_level st"
| "ev_stage ExtFormat = 7"
| "ev_stage (ExtWillSendResponse _) = 8"
| "ev_stage (EngineParse _) = 4"
| "ev_stage (EngineValidate _ _) = 5"
| "ev_stage (EngineExecute _ _) = 7"
| "ev_stage (DispatchDidStart st) = stage_level st"
| "ev_stage (ListenerDidStart _ st) = stage_level st"
| "ev_stage (DispatchDidEnd st _) = stage_level st"
| "ev_stage (ListenerDidEnd _ st _) = stage_level st"
| "ev_stage (SetOperation _ _) = 6"
| "ev_stage (DispatchHook h) = hook_level h"
| "ev_stage (ListenerHook _ h _) = hook_level h"

text \<open>
  The stage events: of both instrumentation mechanisms the end of parsing, the start
  and the end of validation and the start of execution, and between them the two steps
  of the resolution of the operation, the assignment to the request context and the
  \<^verbatim>\<open>didResolveOperation\<close> hook.
\<close>

fun is_stage_event :: "event \<Rightarrow> bool" where
  "is_stage_event (ExtDidEnd ParsingStage) = True"
| "is_stage_event (DispatchDidEnd ParsingStage _) = True"
| "is_stage_event (DispatchDidStart ValidationStage) = True"
| "is_stage_event (ExtDidStart ValidationStage) = True"
| "is_stage_event (ExtDidEnd ValidationStage) = True"
| "is_stage_event (DispatchDidEnd ValidationStage _) = True"
| "is_stage_event (SetOperation _ _) = True"
| "is_stage_event (DispatchHook DidResolveOperation) = True"
| "is_stage_event (DispatchDidStart ExecutionStage) = True"
| "is_stage_event (ExtDidStart ExecutionStage) = True"
| "is_stage_event _ = False"


text \<open>
  The stage events of a request that reaches execution, in their order; \<open>opn\<close> is the
  operation that is resolved.
\<close>

definition stage_order :: "operation option \<Rightarrow> event list" where
  "stage_order opn =
     [ExtDidEnd ParsingStage, DispatchDidEnd ParsingStage [],
      DispatchDidStart ValidationStage, ExtDidStart ValidationStage,
      ExtDidEnd ValidationStage, DispatchDidEnd ValidationStage [],
      SetOperation opn (Some (operationNameOf opn)),
      DispatchHook DidResolveOperation,
      DispatchDidStart ExecutionStage, ExtDidStart ExecutionStage]"

subsection \<open>The initialisation, named\<close>

text \<open>
  The request context after line 113, the dispatcher built at line 115, the calls made
  by lines 115 and 117, and the request context after line 117.
\<close>

definition startContext :: "config \<Rightarrow> request_context \<Rightarrow> request_context" where
  "startContext cfg rc =
     rc\<lparr>rc_context := (rc_context rc)(''_extensionStack'' \<mapsto>
          ExtensionStackValue (initializeExtensionStack cfg))\<rparr>"

definition requestDispatcher :: "config \<Rightarrow> request_context \<Rightarrow> dispatcher" where
  "requestDispatcher cfg rc = snd (initializeRequestListenerDispatcher cfg (startContext cfg rc))"

definition initEvents :: "config \<Rightarrow> request_context \<Rightarrow> event list" where
  "initEvents cfg rc =
     fst (initializeRequestListenerDispatcher cfg (startContext cfg rc))
     @ fst (initializeDataSources cfg (startContext cfg rc))"

definition initializedContext :: "config \<Rightarrow> request_context \<Rightarrow> request_context" where
  "initializedContext cfg rc =
     (case snd (initializeDataSources cfg (startContext cfg rc)) of
        Inr rc' \<Rightarrow> rc'
      | Inl _ \<Rightarrow> startContext cfg rc)"

subsection \<open>Reading a run\<close>

text \<open>
  A run that is rejected with \<open>e\<close> before the per-request scope starts: nothing was
  sent, the persisted response is untouched, and the calls made are those of the
  initialisation and of the cache.
\<close>

definition rejected_unsent :: "result \<Rightarrow> request_context \<Rightarrow> gerror \<Rightarrow> bool" where
  "rejected_unsent res rc e \<longleftrightarrow>
     outcome res = Inl e
     \<and> rc_response (final_context res) = rc_response rc
     \<and> (\<forall>ev \<in> set (trace res). ev_stage ev \<le> 2)"

text \<open>
  The properties of a merged response that the merge takes from its base: everything
  except \<open>errors\<close>, \<open>data\<close> and \<open>extensions\<close>. Without a base they are absent.
\<close>

fun preserved_fields :: "gqlobj option \<Rightarrow> gqlobj \<Rightarrow> bool" where
  "preserved_fields None g \<longleftrightarrow>
     http g = None \<and> others g = [] \<and> initialResponse g = None \<and> deferredPatches g = None
     \<and> requestDidEnd g = None \<and> extensionStack g = None"
| "preserved_fields (Some p) g \<longleftrightarrow>
     http g = http p \<and> others g = others p \<and> initialResponse g = initialResponse p
     \<and> deferredPatches g = deferredPatches p \<and> requestDidEnd g = requestDidEnd p
     \<and> extensionStack g = extensionStack p"

text \<open>
  What a run that returned \<open>out\<close> did about sending, read off its calls \<open>evs\<close>: the
  dispatcher's \<^verbatim>\<open>willSendResponse\<close> was called once for a complete response and not at
  all for a deferred one, and for a deferred one the initial response is what the
  extension stack returned for the merge into \<open>base\<close>.
\<close>

definition sent_as :: "engine \<Rightarrow> string list \<Rightarrow> gqlobj option \<Rightarrow> event list \<Rightarrow> gqlobj \<Rightarrow> bool" where
  "sent_as eng st base evs out \<longleftrightarrow>
     count_list evs (DispatchHook WillSendResponse) = (if isDeferredGraphQLResponse out then 0 else 1)
     \<and> (isDeferredGraphQLResponse out \<longrightarrow>
          (\<exists>g. ExtWillSendResponse g \<in> set evs
             \<and> initialResponse out = Some (stack_willSendResponse eng st g)
             \<and> preserved_fields base g))"

text \<open>The initial response of the persisted response, the base of the deferred merge.\<close>

definition persisted_initial :: "request_context \<Rightarrow> gqlobj option" where
  "persisted_initial rc = (case rc_response rc of Some p \<Rightarrow> initialResponse p | None \<Rightarrow> None)"

text \<open>
  What a run with calls \<open>evs\<close> and result \<open>out\<close> did with a document that it validated
  against \<open>rules\<close>: the rules are the engine's, then \<open>CannotDeferNonNullableFields\<close>, then the
  custom ones; and if the validation found errors, no call of operation resolution or
  of execution was made, and the response handed to the extension stack carries exactly
  these errors, as \<open>Validation\<close> errors, and no data.
\<close>

definition validation_outcome ::
  "config \<Rightarrow> engine \<Rightarrow> string list \<Rightarrow> document \<Rightarrow> rule list \<Rightarrow> event list \<Rightarrow>
   (gerror + gqlobj) \<Rightarrow> bool" where
  "validation_outcome cfg eng st doc rules evs out \<longleftrightarrow>
     rules = specifiedRules eng @ [CannotDeferNonNullableFields]
               @ (case validationRules cfg of Some custom \<Rightarrow> custom | None \<Rightarrow> [])
     \<and> (graphql_validate eng (schema cfg) doc rules \<noteq> [] \<longrightarrow>
          (\<forall>e \<in> set evs. ev_stage e \<noteq> 6 \<and> ev_stage e \<noteq> 7)
          \<and> (\<exists>g. ExtWillSendResponse g \<in> set evs
                 \<and> errors g = Some (map (\<lambda>err. err\<lparr>kind := Validation\<rparr>)
                                     (graphql_validate eng (schema cfg) doc rules))
                 \<and> data g = None
                 \<and> (\<forall>res. out = Inr res \<longrightarrow> res = stack_willSendResponse eng st g)))"

subsection \<open>Concrete requests\<close>

text \<open>
  An engine, configurations and request contexts on which the properties below are
  evaluated. The digest is a stand-in that prefixes its input; the document \<open>{x}\<close> fails
  validation, \<open>{e}\<close> fails in execution, \<open>{d}\<close> gives a deferred result and \<open>{\<close> does not
  parse.
\<close>

definition engine0 :: engine where
  "engine0 =
     \<lparr>sha256_hex = (\<lambda>q. ''#'' @ q),
      graphql_parse = (\<lambda>q.
         if q = ''{'' then Inl \<lparr>message = ''Syntax Error'', kind = Unclassified\<rparr> else Inr q),
      specifiedRules = [Rule ''KnownTypeNames''],
      graphql_validate = (\<lambda>sch doc rules.
         if doc = ''{x}'' then [\<lparr>message = ''Cannot query field x'', kind = Unclassified\<rparr>]
         else []),
      getOperationAST = (\<lambda>doc name. Some \<lparr>op_name = name\<rparr>),
      executeWithDefer = (\<lambda>args.
         if ea_document args = ''{d}''
         then Inr (DeferredExecutionResult
                (GqlObj None (Some ''i'') None None [] None None None None) [''p''])
         else if ea_document args = ''{e}''
         then Inl \<lparr>message = ''resolver failed'', kind = Unclassified\<rparr>
         else Inr (ExecutionResult (GqlObj None (Some ''r'') None None [] None None None None))),
      stack_format = (\<lambda>stack. []),
      stack_willSendResponse = (\<lambda>stack g. g)\<rparr>"

definition listener0 :: listener where
  "listener0 =
     \<lparr>parsingDidStart = Some True, validationDidStart = Some True,
      executionDidStart = Some True,
      didResolveOperation = Some (\<lambda>rc. None), willSendResponse = Some (\<lambda>rc. None)\<rparr>"

definition denied :: gerror where
  "denied = \<lparr>message = ''operation not allowed'', kind = AppDefined ''FORBIDDEN''\<rparr>"

definition listener_denying :: listener where
  "listener_denying = listener0\<lparr>didResolveOperation := Some (\<lambda>rc. Some denied)\<rparr>"

definition config0 :: config where
  "config0 =
     \<lparr>schema = ''s'', rootValue = None, validationRules = None, dataSources = None,
      cfg_extensions = None, tracing = False, persistedQueries = None, cacheControl = None,
      formatResponse = None,
      plugins = Some [\<lparr>requestDidStart = Some (\<lambda>rc. Some listener0)\<rparr>],
      enableDefer = True\<rparr>"

definition config_denying :: config where
  "config_denying = config0\<lparr>plugins := Some [\<lparr>requestDidStart = Some (\<lambda>rc. Some listener_denying)\<rparr>]\<rparr>"

definition config_ds :: config where
  "config_ds = config0\<lparr>plugins := None, dataSources :=
     Some [(''users'', \<lparr>ds_initialize = True\<rparr>), (''legacy'', \<lparr>ds_initialize = False\<rparr>)]\<rparr>"

definition write_failed :: gerror where
  "write_failed = \<lparr>message = ''cache down'', kind = Unclassified\<rparr>"

definition cache0 :: kv_cache where
  "cache0 =
     \<lparr>cache_get = (\<lambda>k. if k = ''apq:#{a}'' then Some ''{a}'' else None),
      cache_set = (\<lambda>k v. Rejects write_failed)\<rparr>"

definition cache_throwing :: kv_cache where
  "cache_throwing = cache0\<lparr>cache_set := \<lambda>k v. Throws write_failed\<rparr>"

definition config_pq :: config where
  "config_pq = config0\<lparr>plugins := None, persistedQueries := Some \<lparr>pq_cache = Some cache0\<rparr>\<rparr>"

definition config_pq_throwing :: config where
  "config_pq_throwing =
     config0\<lparr>plugins := None, persistedQueries := Some \<lparr>pq_cache = Some cache_throwing\<rparr>\<rparr>"

definition request0 :: "string option \<Rightarrow> request" where
  "request0 q =
     \<lparr>query = q, operationName = None, variables = None, req_extensions = None,
      req_http = None\<rparr>"

definition request_pq :: "string option \<Rightarrow> int \<Rightarrow> string \<Rightarrow> request" where
  "request_pq q v h =
     (request0 q)\<lparr>req_extensions := Some \<lparr>persistedQuery = Some \<lparr>version = v, sha256Hash = h\<rparr>\<rparr>\<rparr>"

definition context_of :: "request \<Rightarrow> request_context" where
  "context_of req =
     \<lparr>rc_request = req,
      rc_response = Some (GqlObj None None None (Some ''h'') [] None None None None),
      rc_context = Map.empty, rc_queryHash = None, rc_document = None, rc_operation = None,
      rc_operationName = None\<rparr>"

definition context_ds :: request_context where
  "context_ds = (context_of (request0 (Some ''{a}'')))
     \<lparr>rc_context := [''dataSources'' \<mapsto> UserValue ''mine'']\<rparr>"

section \<open>Properties\<close>

subsection \<open>Events of the building blocks\<close>

lemma requestListeners_events:
  "e \<in> set (fst (requestListeners i ps rc)) \<Longrightarrow> ev_stage e = 0"
  by (induction ps arbitrary: i) (auto simp: split_beta split: option.splits)

lemma initializeEach_events: "e \<in> set (initializeEach ds) \<Longrightarrow> ev_stage e = 1"
  by (induction ds rule: initializeEach.induct) (auto split: if_splits)

lemma resolveQuery_events: "e \<in> set (fst (resolveQuery cfg eng req)) \<Longrightarrow> ev_stage e = 2"
  by (auto simp: resolveQuery_def Let_def split: option.splits if_splits set_outcome.splits)

lemma invokeDidStartHook_events:
  "e \<in> set (fst (invokeDidStartHook st d)) \<Longrightarrow> ev_stage e = stage_level st"
  by (auto simp: invokeDidStartHook_def)

lemma didEnd_events: "e \<in> set (didEnd st cbs errs) \<Longrightarrow> ev_stage e = stage_level st"
  by (auto simp: didEnd_def)

lemma invokeHookAsync_events:
  "e \<in> set (fst (invokeHookAsync h d rc)) \<Longrightarrow> ev_stage e = hook_level h"
  by (induction h d rc rule: invokeHookAsync.induct) (auto simp: split_beta split: option.splits)

lemma invokeHookAsync_rejected:
  "ListenerHook i h' (Some x) \<in> set (fst (invokeHookAsync h d rc)) \<Longrightarrow>
     snd (invokeHookAsync h d rc) = Some x"
  by (induction h d rc rule: invokeHookAsync.induct) (auto simp: split_beta split: option.splits)

subsection \<open>Sending\<close>

lemma sendResponse_deferred:
  assumes "isDeferredGraphQLResponse r" and "initialResponse r = Some ir"
  shows "sendResponse eng st d rc r =
    ([ExtWillSendResponse
        (spread_response (case rc_response rc of Some p \<Rightarrow> initialResponse p | None \<Rightarrow> None) ir)],
     rc\<lparr>rc_response := Some (set_initialResponse r (stack_willSendResponse eng st
        (spread_response (case rc_response rc of Some p \<Rightarrow> initialResponse p | None \<Rightarrow> None) ir)))\<rparr>,
     Inr (set_initialResponse r (stack_willSendResponse eng st
        (spread_response (case rc_response rc of Some p \<Rightarrow> initialResponse p | None \<Rightarrow> None) ir))))"
  using assms by (simp add: sendResponse_def Let_def)

lemma sendResponse_complete:
  assumes "\<not> isDeferredGraphQLResponse r"
  shows "sendResponse eng st d rc r =
    (ExtWillSendResponse (spread_response (rc_response rc) r) # DispatchHook WillSendResponse
       # fst (invokeHookAsync WillSendResponse d
               (rc\<lparr>rc_response := Some (stack_willSendResponse eng st (spread_response (rc_response rc) r))\<rparr>)),
     rc\<lparr>rc_response := Some (stack_willSendResponse eng st (spread_response (rc_response rc) r))\<rparr>,
     (case snd (invokeHookAsync WillSendResponse d
               (rc\<lparr>rc_response := Some (stack_willSendResponse eng st (spread_response (rc_response rc) r))\<rparr>)) of
        Some e \<Rightarrow> Inl e
      | None \<Rightarrow> Inr (stack_willSendResponse eng st (spread_response (rc_response rc) r))))"
  using assms by (simp add: sendResponse_def Let_def split_beta split: option.splits bool.splits)

lemma isDeferred_initial: "isDeferredGraphQLResponse r \<Longrightarrow> \<exists>ir. initialResponse r = Some ir"
  by (auto simp: isDeferredGraphQLResponse_def)

lemma sendResponse_events: "e \<in> set (fst (sendResponse eng st d rc r)) \<Longrightarrow> ev_stage e = 8"
proof (cases "isDeferredGraphQLResponse r")
  case True
  then obtain ir where "initialResponse r = Some ir" using isDeferred_initial by blast
  with True show "e \<in> set (fst (sendResponse eng st d rc r)) \<Longrightarrow> ev_stage e = 8"
    by (auto simp: sendResponse_deferred)
next
  case False
  then show "e \<in> set (fst (sendResponse eng st d rc r)) \<Longrightarrow> ev_stage e = 8"
    by (auto simp: sendResponse_complete dest: invokeHookAsync_events)
qed

lemma sendResponse_frame:
  "fst (snd (sendResponse eng st d rc r)) = rc\<lparr>rc_response := rc_response (fst (snd (sendResponse eng st d rc r)))\<rparr>"
proof (cases "isDeferredGraphQLResponse r")
  case True
  then obtain ir where "initialResponse r = Some ir" using isDeferred_initial by blast
  with True show ?thesis by (simp add: sendResponse_deferred)
next
  case False
  then show ?thesis by (simp add: sendResponse_complete)
qed

lemma sendErrorResponse_eq:
  "sendErrorResponse eng st d rc es cls = sendResponse eng st d rc (errorResponse es cls)"
  by (simp add: sendErrorResponse_def)

lemma errorResponse_complete [simp]: "\<not> isDeferredGraphQLResponse (errorResponse es cls)"
  by (simp add: errorResponse_def isDeferredGraphQLResponse_def Let_def)

subsection \<open>The stages, one level at a time\<close>

lemma executionStage_trace:
  "fst (executionStage cfg eng st d rc doc) =
     DispatchDidStart ExecutionStage # fst (invokeDidStartHook ExecutionStage d)
     @ [ExtDidStart ExecutionStage, EngineExecute doc (operationName (rc_request rc)), ExtDidEnd ExecutionStage]
     @ (case snd (execute cfg eng rc doc (operationName (rc_request rc)) (variables (rc_request rc))) of
          Inl err \<Rightarrow>
            DispatchDidEnd ExecutionStage [err]
            # didEnd ExecutionStage (snd (invokeDidStartHook ExecutionStage d)) [err]
            @ fst (sendResponse eng st d rc (errorResponse (SingleError err) None))
        | Inr res \<Rightarrow>
            ExtFormat # DispatchDidEnd ExecutionStage []
            # didEnd ExecutionStage (snd (invokeDidStartHook ExecutionStage d)) []
            @ fst (sendResponse eng st d rc (formatOutput cfg eng st res)))"
  by (simp add: executionStage_def execute_def sendErrorResponse_eq Let_def split_beta split: sum.splits)

lemma executionStage_rest:
  "snd (executionStage cfg eng st d rc doc) =
     (case snd (execute cfg eng rc doc (operationName (rc_request rc)) (variables (rc_request rc))) of
        Inl err \<Rightarrow> snd (sendResponse eng st d rc (errorResponse (SingleError err) None))
      | Inr res \<Rightarrow> snd (sendResponse eng st d rc (formatOutput cfg eng st res)))"
  by (simp add: executionStage_def sendErrorResponse_eq Let_def split_beta split: sum.splits)

lemma operationStage_trace:
  "fst (operationStage cfg eng st d rc doc) =
     SetOperation (rc_operation (resolveOperation eng rc doc))
       (rc_operationName (resolveOperation eng rc doc))
     # DispatchHook DidResolveOperation
     # fst (invokeHookAsync DidResolveOperation d (resolveOperation eng rc doc))
     @ (case snd (invokeHookAsync DidResolveOperation d (resolveOperation eng rc doc)) of
          Some e \<Rightarrow> []
        | None \<Rightarrow> fst (executionStage cfg eng st d (resolveOperation eng rc doc) doc))"
  by (simp add: operationStage_def Let_def split_beta split: option.splits)

lemma operationStage_rest:
  "snd (operationStage cfg eng st d rc doc) =
     (case snd (invokeHookAsync DidResolveOperation d (resolveOperation eng rc doc)) of
        Some e \<Rightarrow> (resolveOperation eng rc doc, Inl e)
      | None \<Rightarrow> snd (executionStage cfg eng st d (resolveOperation eng rc doc) doc))"
  by (simp add: operationStage_def Let_def split_beta split: option.splits)

lemma validationStage_trace:
  "fst (validationStage cfg eng st d rc doc) =
     DispatchDidStart ValidationStage # fst (invokeDidStartHook ValidationStage d)
     @ fst (validate cfg eng doc)
     @ DispatchDidEnd ValidationStage (snd (validate cfg eng doc))
     # didEnd ValidationStage (snd (invokeDidStartHook ValidationStage d)) (snd (validate cfg eng doc))
     @ (if snd (validate cfg eng doc) = []
        then fst (operationStage cfg eng st d (rc\<lparr>rc_document := Some doc\<rparr>) doc)
        else fst (sendResponse eng st d (rc\<lparr>rc_document := Some doc\<rparr>)
                    (errorResponse (ErrorArray (snd (validate cfg eng doc))) (Some Validation))))"
  by (simp add: validationStage_def sendErrorResponse_eq Let_def split_beta)

lemma validationStage_rest:
  "snd (validationStage cfg eng st d rc doc) =
     (if snd (validate cfg eng doc) = []
      then snd (operationStage cfg eng st d (rc\<lparr>rc_document := Some doc\<rparr>) doc)
      else snd (sendResponse eng st d (rc\<lparr>rc_document := Some doc\<rparr>)
                  (errorResponse (ErrorArray (snd (validate cfg eng doc))) (Some Validation))))"
  by (simp add: validationStage_def sendErrorResponse_eq Let_def split_beta)

lemma tryBlock_trace:
  "fst (tryBlock cfg eng st d rc q cbs) =
     [ExtDidStart ParsingStage, EngineParse q, ExtDidEnd ParsingStage]
     @ (case graphql_parse eng q of
          Inr doc \<Rightarrow>
            DispatchDidEnd ParsingStage [] # didEnd ParsingStage cbs []
            @ fst (validationStage cfg eng st d rc doc)
        | Inl err \<Rightarrow>
            DispatchDidEnd ParsingStage [err] # didEnd ParsingStage cbs [err]
            @ fst (sendResponse eng st d rc (errorResponse (SingleError err) (Some Syntax))))"
  by (simp add: tryBlock_def parse_def sendErrorResponse_eq Let_def split_beta split: sum.splits)

lemma tryBlock_rest:
  "snd (tryBlock cfg eng st d rc q cbs) =
     (case graphql_parse eng q of
        Inr doc \<Rightarrow> snd (validationStage cfg eng st d rc doc)
      | Inl err \<Rightarrow> snd (sendResponse eng st d rc (errorResponse (SingleError err) (Some Syntax))))"
  by (simp add: tryBlock_def parse_def sendErrorResponse_eq Let_def split_beta split: sum.splits)

lemma pipeline_rejected:
  "snd (resolveQuery cfg eng (rc_request rc)) = Inl e \<Longrightarrow>
   pipeline cfg eng st d rc =
     \<lparr>trace = fst (resolveQuery cfg eng (rc_request rc)), final_context = rc, outcome = Inl e\<rparr>"
  by (simp add: pipeline_def Let_def split_beta)

lemma pipeline_resolved:
  "snd (resolveQuery cfg eng (rc_request rc)) = Inr r \<Longrightarrow>
   pipeline cfg eng st d rc =
     \<lparr>trace = fst (resolveQuery cfg eng (rc_request rc))
        @ ExtRequestDidStart (persistedQueryHit r) (persistedQueryRegister r)
        # DispatchDidStart ParsingStage
        # fst (invokeDidStartHook ParsingStage d)
        @ fst (tryBlock cfg eng st d (rc\<lparr>rc_queryHash := Some (r_queryHash r)\<rparr>) (r_query r)
                 (snd (invokeDidStartHook ParsingStage d)))
        @ [ExtRequestDidEnd],
      final_context = fst (snd (tryBlock cfg eng st d (rc\<lparr>rc_queryHash := Some (r_queryHash r)\<rparr>) (r_query r)
                 (snd (invokeDidStartHook ParsingStage d)))),
      outcome = snd (snd (tryBlock cfg eng st d (rc\<lparr>rc_queryHash := Some (r_queryHash r)\<rparr>) (r_query r)
                 (snd (invokeDidStartHook ParsingStage d))))\<rparr>"
  by (simp add: pipeline_def Let_def split_beta)

lemma invokeDidStartHook_shape:
  "e \<in> set (fst (invokeDidStartHook st d)) \<Longrightarrow> \<exists>i. e = ListenerDidStart i st"
  by (auto simp: invokeDidStartHook_def)

lemma didEnd_shape: "e \<in> set (didEnd st cbs errs) \<Longrightarrow> \<exists>i. e = ListenerDidEnd i st errs"
  by (auto simp: didEnd_def)

lemma invokeHookAsync_shape:
  "e \<in> set (fst (invokeHookAsync h d rc)) \<Longrightarrow> \<exists>i r. e = ListenerHook i h r"
  by (induction h d rc rule: invokeHookAsync.induct) (auto simp: split_beta split: option.splits)

lemma requestListeners_shape:
  "e \<in> set (fst (requestListeners i ps rc)) \<Longrightarrow> \<exists>j. e = PluginRequestDidStart j"
  by (induction ps arbitrary: i) (auto simp: split_beta split: option.splits)

subsection \<open>Which events a stage can produce\<close>

lemma executionStage_events:
  "e \<in> set (fst (executionStage cfg eng st d rc doc)) \<Longrightarrow> 7 \<le> ev_stage e"
  by (auto simp: executionStage_trace split: sum.splits
      dest: invokeDidStartHook_events didEnd_events sendResponse_events)

lemma operationStage_events:
  "e \<in> set (fst (operationStage cfg eng st d rc doc)) \<Longrightarrow> 6 \<le> ev_stage e"
  by (auto simp: operationStage_trace split: option.splits
      dest: invokeHookAsync_events executionStage_events)

lemma validationStage_events:
  "e \<in> set (fst (validationStage cfg eng st d rc doc)) \<Longrightarrow> 5 \<le> ev_stage e"
  by (auto simp: validationStage_trace validate_def Let_def split: if_splits
      dest: invokeDidStartHook_events didEnd_events sendResponse_events operationStage_events)

lemma tryBlock_events:
  "e \<in> set (fst (tryBlock cfg eng st d rc q cbs)) \<Longrightarrow> 4 \<le> ev_stage e"
  by (auto simp: tryBlock_trace split: sum.splits
      dest: didEnd_events sendResponse_events validationStage_events)

subsection \<open>What a stage leaves of the request context\<close>

lemma resolveOperation_frame [simp]:
  "rc_response (resolveOperation eng rc doc) = rc_response rc"
  "rc_queryHash (resolveOperation eng rc doc) = rc_queryHash rc"
  "rc_request (resolveOperation eng rc doc) = rc_request rc"
  "rc_document (resolveOperation eng rc doc) = rc_document rc"
  by (simp_all add: resolveOperation_def Let_def)

lemma resolveOperation_sets [simp]:
  "rc_operation (resolveOperation eng rc doc) =
     getOperationAST eng doc (operationName (rc_request rc))"
  "rc_operationName (resolveOperation eng rc doc) =
     Some (operationNameOf (getOperationAST eng doc (operationName (rc_request rc))))"
  by (simp_all add: resolveOperation_def Let_def)

lemma executionStage_frame:
  "fst (snd (executionStage cfg eng st d rc doc)) =
     rc\<lparr>rc_response := rc_response (fst (snd (executionStage cfg eng st d rc doc)))\<rparr>"
  by (auto simp: executionStage_rest split: sum.splits intro: sendResponse_frame)

lemma executionStage_keeps [simp]:
  "rc_operation (fst (snd (executionStage cfg eng st d rc doc))) = rc_operation rc"
  "rc_operationName (fst (snd (executionStage cfg eng st d rc doc))) = rc_operationName rc"
  "rc_document (fst (snd (executionStage cfg eng st d rc doc))) = rc_document rc"
  by (subst executionStage_frame, simp)+

lemma sendResponse_queryHash [simp]:
  "rc_queryHash (fst (snd (sendResponse eng st d rc r))) = rc_queryHash rc"
  by (subst sendResponse_frame) simp

lemma executionStage_queryHash [simp]:
  "rc_queryHash (fst (snd (executionStage cfg eng st d rc doc))) = rc_queryHash rc"
  by (simp add: executionStage_rest split: sum.splits)

lemma operationStage_queryHash [simp]:
  "rc_queryHash (fst (snd (operationStage cfg eng st d rc doc))) = rc_queryHash rc"
  by (simp add: operationStage_rest split: option.splits)

lemma validationStage_queryHash [simp]:
  "rc_queryHash (fst (snd (validationStage cfg eng st d rc doc))) = rc_queryHash rc"
  by (simp add: validationStage_rest)

lemma tryBlock_queryHash [simp]:
  "rc_queryHash (fst (snd (tryBlock cfg eng st d rc q cbs))) = rc_queryHash rc"
  by (simp add: tryBlock_rest split: sum.splits)

subsection \<open>Stage order\<close>

lemma is_stage_event_level: "is_stage_event e \<Longrightarrow> 4 \<le> ev_stage e \<and> ev_stage e \<le> 7"
  by (induction e rule: is_stage_event.induct) simp_all

lemma stage_filter_didStart [simp]: "filter is_stage_event (fst (invokeDidStartHook st d)) = []"
  by (auto simp: filter_empty_conv dest!: invokeDidStartHook_shape)

lemma stage_filter_didEnd [simp]: "filter is_stage_event (didEnd st cbs errs) = []"
  by (auto simp: filter_empty_conv dest!: didEnd_shape)

lemma stage_filter_hook [simp]: "filter is_stage_event (fst (invokeHookAsync h d rc)) = []"
  by (auto simp: filter_empty_conv dest!: invokeHookAsync_shape)

lemma stage_filter_send [simp]: "filter is_stage_event (fst (sendResponse eng st d rc r)) = []"
  by (auto simp: filter_empty_conv dest!: sendResponse_events is_stage_event_level)

lemma stage_filter_low:
  "(\<And>e. e \<in> set tr \<Longrightarrow> ev_stage e \<le> 3) \<Longrightarrow> filter is_stage_event tr = []"
  by (fastforce simp: filter_empty_conv dest!: is_stage_event_level)

lemma executionStage_order:
  "filter is_stage_event (fst (executionStage cfg eng st d rc doc)) =
     [DispatchDidStart ExecutionStage, ExtDidStart ExecutionStage]"
  by (simp add: executionStage_trace split: sum.splits)

lemma operationStage_order:
  "filter is_stage_event (fst (operationStage cfg eng st d rc doc)) =
     SetOperation (getOperationAST eng doc (operationName (rc_request rc)))
       (Some (operationNameOf (getOperationAST eng doc (operationName (rc_request rc)))))
     # DispatchHook DidResolveOperation
     # (case snd (invokeHookAsync DidResolveOperation d (resolveOperation eng rc doc)) of
          Some e \<Rightarrow> []
        | None \<Rightarrow> [DispatchDidStart ExecutionStage, ExtDidStart ExecutionStage])"
  by (simp add: operationStage_trace executionStage_order split: option.splits)

lemma validationStage_order:
  "filter is_stage_event (fst (validationStage cfg eng st d rc doc)) =
     [DispatchDidStart ValidationStage, ExtDidStart ValidationStage, ExtDidEnd ValidationStage,
      DispatchDidEnd ValidationStage (snd (validate cfg eng doc))]
     @ (if snd (validate cfg eng doc) = []
        then filter is_stage_event (fst (operationStage cfg eng st d (rc\<lparr>rc_document := Some doc\<rparr>) doc))
        else [])"
  by (simp add: validationStage_trace validate_def Let_def)

lemma tryBlock_order:
  "filter is_stage_event (fst (tryBlock cfg eng st d rc q cbs)) =
     (case graphql_parse eng q of
        Inr doc \<Rightarrow>
          ExtDidEnd ParsingStage # DispatchDidEnd ParsingStage []
          # filter is_stage_event (fst (validationStage cfg eng st d rc doc))
      | Inl err \<Rightarrow> [ExtDidEnd ParsingStage, DispatchDidEnd ParsingStage [err]])"
  by (simp add: tryBlock_trace split: sum.splits)

text \<open>
  A try block that reaches execution has parsed the query into a document, has been
  through the stage events in their order, and leaves the document, the operation
  resolved from it and the operation's name on the request context.
\<close>

lemma tryBlock_reaches_execution:
  assumes "DispatchDidStart ExecutionStage \<in> set (fst (tryBlock cfg eng st d rc q cbs))"
  shows "\<exists>doc. graphql_parse eng q = Inr doc
           \<and> filter is_stage_event (fst (tryBlock cfg eng st d rc q cbs)) =
               stage_order (getOperationAST eng doc (operationName (rc_request rc)))
           \<and> rc_document (fst (snd (tryBlock cfg eng st d rc q cbs))) = Some doc
           \<and> rc_operation (fst (snd (tryBlock cfg eng st d rc q cbs))) =
               getOperationAST eng doc (operationName (rc_request rc))
           \<and> rc_operationName (fst (snd (tryBlock cfg eng st d rc q cbs))) =
               Some (operationNameOf (getOperationAST eng doc (operationName (rc_request rc))))"
proof -
  from assms have mem: "DispatchDidStart ExecutionStage
      \<in> set (filter is_stage_event (fst (tryBlock cfg eng st d rc q cbs)))"
    by simp
  then obtain doc where doc: "graphql_parse eng q = Inr doc"
    by (cases "graphql_parse eng q") (auto simp: tryBlock_order)
  from mem doc have valid: "snd (validate cfg eng doc) = []"
    by (auto simp: tryBlock_order validationStage_order split: if_splits)
  from mem doc valid have hook:
    "snd (invokeHookAsync DidResolveOperation d
           (resolveOperation eng (rc\<lparr>rc_document := Some doc\<rparr>) doc)) = None"
    by (auto simp: tryBlock_order validationStage_order operationStage_order
        split: option.splits)
  have "filter is_stage_event (fst (tryBlock cfg eng st d rc q cbs)) =
      stage_order (getOperationAST eng doc (operationName (rc_request rc)))"
    by (simp add: tryBlock_order validationStage_order operationStage_order stage_order_def
        doc valid hook)
  moreover have "rc_document (fst (snd (tryBlock cfg eng st d rc q cbs))) = Some doc"
    and "rc_operation (fst (snd (tryBlock cfg eng st d rc q cbs))) =
               getOperationAST eng doc (operationName (rc_request rc))"
    and "rc_operationName (fst (snd (tryBlock cfg eng st d rc q cbs))) =
               Some (operationNameOf (getOperationAST eng doc (operationName (rc_request rc))))"
    by (simp_all add: tryBlock_rest validationStage_rest operationStage_rest doc valid hook)
  ultimately show ?thesis using doc by blast
qed

lemma tryBlock_parses:
  "EngineParse q' \<in> set (fst (tryBlock cfg eng st d rc q cbs)) \<longleftrightarrow> q' = q"
  by (auto simp: tryBlock_trace split: sum.splits
      dest: didEnd_shape sendResponse_events validationStage_events)

lemma pipeline_parses:
  assumes "EngineParse q \<in> set (trace (pipeline cfg eng st d rc))"
  shows "\<exists>r. snd (resolveQuery cfg eng (rc_request rc)) = Inr r \<and> r_query r = q"
proof (cases "snd (resolveQuery cfg eng (rc_request rc))")
  case (Inl e)
  with assms show ?thesis
    by (auto simp: pipeline_rejected dest: resolveQuery_events)
next
  case (Inr r)
  with assms have "EngineParse q
      \<in> set (fst (tryBlock cfg eng st d (rc\<lparr>rc_queryHash := Some (r_queryHash r)\<rparr>) (r_query r)
                 (snd (invokeDidStartHook ParsingStage d))))"
    by (auto simp: pipeline_resolved dest: resolveQuery_events invokeDidStartHook_shape)
  with Inr show ?thesis by (simp add: tryBlock_parses)
qed

lemma pipeline_order:
  assumes "DispatchDidStart ExecutionStage \<in> set (trace (pipeline cfg eng st d rc))"
  shows "\<exists>q doc. EngineParse q \<in> set (trace (pipeline cfg eng st d rc))
           \<and> graphql_parse eng q = Inr doc
           \<and> filter is_stage_event (trace (pipeline cfg eng st d rc)) =
               stage_order (getOperationAST eng doc (operationName (rc_request rc)))
           \<and> rc_document (final_context (pipeline cfg eng st d rc)) = Some doc
           \<and> rc_operation (final_context (pipeline cfg eng st d rc)) =
               getOperationAST eng doc (operationName (rc_request rc))
           \<and> rc_operationName (final_context (pipeline cfg eng st d rc)) =
               Some (operationNameOf (getOperationAST eng doc (operationName (rc_request rc))))"
proof (cases "snd (resolveQuery cfg eng (rc_request rc))")
  case (Inl e)
  with assms show ?thesis
    by (auto simp: pipeline_rejected dest: resolveQuery_events)
next
  case (Inr r)
  let ?t = "tryBlock cfg eng st d (rc\<lparr>rc_queryHash := Some (r_queryHash r)\<rparr>) (r_query r)
              (snd (invokeDidStartHook ParsingStage d))"
  have low: "filter is_stage_event (fst (resolveQuery cfg eng (rc_request rc))) = []"
    by (rule stage_filter_low) (auto dest: resolveQuery_events)
  from Inr assms have "DispatchDidStart ExecutionStage \<in> set (fst ?t)"
    by (auto simp: pipeline_resolved dest: resolveQuery_events invokeDidStartHook_shape)
  from tryBlock_reaches_execution [OF this] obtain doc where
    doc: "graphql_parse eng (r_query r) = Inr doc"
    and ord: "filter is_stage_event (fst ?t) =
               stage_order (getOperationAST eng doc (operationName (rc_request rc)))"
    and ctx: "rc_document (fst (snd ?t)) = Some doc"
      "rc_operation (fst (snd ?t)) = getOperationAST eng doc (operationName (rc_request rc))"
      "rc_operationName (fst (snd ?t)) =
         Some (operationNameOf (getOperationAST eng doc (operationName (rc_request rc))))"
    by auto
  have "EngineParse (r_query r) \<in> set (trace (pipeline cfg eng st d rc))"
    by (simp add: pipeline_resolved [OF Inr] tryBlock_parses)
  moreover have "filter is_stage_event (trace (pipeline cfg eng st d rc)) =
      stage_order (getOperationAST eng doc (operationName (rc_request rc)))"
    by (simp add: pipeline_resolved [OF Inr] low ord)
  ultimately show ?thesis
    using doc ctx by (auto simp: pipeline_resolved [OF Inr])
qed

subsection \<open>Initialisation\<close>

lemma initializeEach_eq:
  "initializeEach ds = map (\<lambda>(name, d). DataSourceInitialize name) (filter (\<lambda>(name, d). ds_initialize d) ds)"
  by (induction ds rule: initializeEach.induct) auto

lemma startContext_frame [simp]:
  "rc_request (startContext cfg rc) = rc_request rc"
  "rc_response (startContext cfg rc) = rc_response rc"
  "rc_queryHash (startContext cfg rc) = rc_queryHash rc"
  "rc_context (startContext cfg rc) ''dataSources'' = rc_context rc ''dataSources''"
  by (simp_all add: startContext_def)

lemma dataSourcesConflict_start [simp]:
  "dataSourcesConflict cfg (startContext cfg rc) = dataSourcesConflict cfg rc"
  by (simp add: dataSourcesConflict_def)

lemma initializeDataSources_conflict:
  "dataSourcesConflict cfg rc \<Longrightarrow> dataSources cfg = Some ds \<Longrightarrow>
   initializeDataSources cfg rc =
     (initializeEach ds,
      Inl (Error ''Please use the dataSources config option instead of putting dataSources on the context yourself.''))"
  by (auto simp: initializeDataSources_def dataSourcesConflict_def Let_def)

lemma initializeDataSources_ok:
  "\<not> dataSourcesConflict cfg rc \<Longrightarrow>
   \<exists>rc'. snd (initializeDataSources cfg rc) = Inr rc' \<and> rc_request rc' = rc_request rc
     \<and> rc_response rc' = rc_response rc \<and> rc_queryHash rc' = rc_queryHash rc"
  by (auto simp: initializeDataSources_def dataSourcesConflict_def Let_def split: option.splits)

lemma initializeDataSources_events:
  "e \<in> set (fst (initializeDataSources cfg rc)) \<Longrightarrow> ev_stage e = 1"
  by (auto simp: initializeDataSources_def Let_def split: option.splits if_splits
      dest: initializeEach_events)

lemma initEvents_events: "e \<in> set (initEvents cfg rc) \<Longrightarrow> ev_stage e \<le> 1"
  by (auto simp: initEvents_def initializeRequestListenerDispatcher_def split: option.splits
      dest: requestListeners_events initializeDataSources_events)

lemma initializedContext_frame:
  assumes "\<not> dataSourcesConflict cfg rc"
  shows "snd (initializeDataSources cfg (startContext cfg rc)) = Inr (initializedContext cfg rc)"
    and "rc_request (initializedContext cfg rc) = rc_request rc"
    and "rc_response (initializedContext cfg rc) = rc_response rc"
    and "rc_queryHash (initializedContext cfg rc) = rc_queryHash rc"
  using initializeDataSources_ok [of cfg "startContext cfg rc"] assms
  by (auto simp: initializedContext_def)

lemma process_conflict:
  assumes "dataSourcesConflict cfg rc"
  shows "processGraphQLRequest cfg eng rc =
     \<lparr>trace = initEvents cfg rc, final_context = startContext cfg rc,
      outcome = Inl (Error ''Please use the dataSources config option instead of putting dataSources on the context yourself.'')\<rparr>"
proof -
  from assms obtain ds where ds: "dataSources cfg = Some ds"
    by (auto simp: dataSourcesConflict_def)
  have "initializeDataSources cfg (startContext cfg rc) =
     (initializeEach ds,
      Inl (Error ''Please use the dataSources config option instead of putting dataSources on the context yourself.''))"
    by (rule initializeDataSources_conflict) (simp_all add: assms ds)
  then show ?thesis
    by (simp add: processGraphQLRequest_def initEvents_def Let_def split_beta
        startContext_def [symmetric])
qed

lemma process_ok:
  assumes "\<not> dataSourcesConflict cfg rc"
  shows "processGraphQLRequest cfg eng rc =
     (pipeline cfg eng (initializeExtensionStack cfg) (requestDispatcher cfg rc)
        (initializedContext cfg rc))
     \<lparr>trace := initEvents cfg rc
        @ trace (pipeline cfg eng (initializeExtensionStack cfg) (requestDispatcher cfg rc)
                   (initializedContext cfg rc))\<rparr>"
  using initializedContext_frame(1) [OF assms]
  by (simp add: processGraphQLRequest_def initEvents_def requestDispatcher_def Let_def split_beta
      startContext_def [symmetric])

lemmas fixture_defs = engine0_def listener0_def listener_denying_def denied_def config0_def
  config_denying_def config_ds_def write_failed_def cache0_def cache_throwing_def config_pq_def
  config_pq_throwing_def request0_def
  request_pq_def context_of_def context_ds_def

lemmas model_defs = processGraphQLRequest_def pipeline_def tryBlock_def validationStage_def
  operationStage_def resolveOperation_def operationNameOf_def executionStage_def formatOutput_def execute_def
  validate_def parse_def sendErrorResponse_def errorResponse_def sendResponse_def
  isDeferredGraphQLResponse_def resolveQuery_def request_persistedQuery_def config_cache_def
  computeQueryHash_def initializeDataSources_def initializeRequestListenerDispatcher_def
  initializeExtensionStack_def invokeDidStartHook_def didEnd_def fromGraphQLError_def
  InvalidGraphQLRequestError_def PersistedQueryNotSupportedError_def
  PersistedQueryNotFoundError_def Error_def

subsection \<open>Data sources\<close>

text \<open>
  C10. When \<^verbatim>\<open>config.dataSources\<close> is supplied and the user context already has a
  \<^verbatim>\<open>dataSources\<close> property, the call is rejected with the configuration error, and the
  calls made before that are the plugin set-up followed by \<^verbatim>\<open>initialize\<close> on every
  supplied data source that has the method, in order: the conflict is detected only
  after the data sources were initialised.
\<close>

theorem dataSources_conflict_after_initialize:
  assumes "dataSources cfg = Some ds" and "rc_context rc ''dataSources'' \<noteq> None"
  shows "outcome (processGraphQLRequest cfg eng rc) =
           Inl (Error ''Please use the dataSources config option instead of putting dataSources on the context yourself.'')
         \<and> (\<exists>pre. trace (processGraphQLRequest cfg eng rc) =
                pre @ map (\<lambda>(name, d). DataSourceInitialize name)
                        (filter (\<lambda>(name, d). ds_initialize d) ds)
              \<and> (\<forall>e \<in> set pre. ev_stage e = 0))"
proof -
  from assms have conflict: "dataSourcesConflict cfg rc"
    by (simp add: dataSourcesConflict_def)
  have ds: "fst (initializeDataSources cfg (startContext cfg rc)) = initializeEach ds"
    using initializeDataSources_conflict [of cfg "startContext cfg rc" ds] conflict assms(1)
    by simp
  have pre: "\<forall>e \<in> set (fst (initializeRequestListenerDispatcher cfg (startContext cfg rc))).
      ev_stage e = 0"
    by (auto simp: initializeRequestListenerDispatcher_def split: option.splits
        dest: requestListeners_events)
  from pre show ?thesis
    by (auto simp: process_conflict [OF conflict] initEvents_def ds initializeEach_eq)
qed

theorem dataSources_conflict_witness:
  "dataSources config_ds = Some [(''users'', \<lparr>ds_initialize = True\<rparr>), (''legacy'', \<lparr>ds_initialize = False\<rparr>)]
   \<and> rc_context context_ds ''dataSources'' \<noteq> None
   \<and> outcome (processGraphQLRequest config_ds engine0 context_ds) =
       Inl (Error ''Please use the dataSources config option instead of putting dataSources on the context yourself.'')
   \<and> (\<exists>pre. trace (processGraphQLRequest config_ds engine0 context_ds) =
          pre @ [DataSourceInitialize ''users''] \<and> (\<forall>e \<in> set pre. ev_stage e = 0))"
proof -
  have h1: "dataSources config_ds =
      Some [(''users'', \<lparr>ds_initialize = True\<rparr>), (''legacy'', \<lparr>ds_initialize = False\<rparr>)]"
    by (simp add: config_ds_def)
  have h2: "rc_context context_ds ''dataSources'' \<noteq> None"
    by (simp add: context_ds_def)
  from dataSources_conflict_after_initialize [OF h1 h2, of engine0] h1 h2
  show ?thesis by simp
qed

subsection \<open>The concrete runs\<close>

lemma run_plain:
  "processGraphQLRequest config0 engine0 (context_of (request0 (Some ''{a}''))) =
     \<lparr>trace =
        [PluginRequestDidStart 0, ExtRequestDidStart False False,
         DispatchDidStart ParsingStage, ListenerDidStart 0 ParsingStage,
         ExtDidStart ParsingStage, EngineParse ''{a}'', ExtDidEnd ParsingStage,
         DispatchDidEnd ParsingStage [], ListenerDidEnd 0 ParsingStage [],
         DispatchDidStart ValidationStage, ListenerDidStart 0 ValidationStage,
         ExtDidStart ValidationStage,
         EngineValidate ''{a}'' [Rule ''KnownTypeNames'', CannotDeferNonNullableFields],
         ExtDidEnd ValidationStage, DispatchDidEnd ValidationStage [],
         ListenerDidEnd 0 ValidationStage [],
         SetOperation (Some \<lparr>op_name = None\<rparr>) (Some None), DispatchHook DidResolveOperation,
         ListenerHook 0 DidResolveOperation None, DispatchDidStart ExecutionStage,
         ListenerDidStart 0 ExecutionStage, ExtDidStart ExecutionStage,
         EngineExecute ''{a}'' None, ExtDidEnd ExecutionStage, ExtFormat,
         DispatchDidEnd ExecutionStage [], ListenerDidEnd 0 ExecutionStage [],
         ExtWillSendResponse (GqlObj None (Some ''r'') None (Some ''h'') [] None None None None),
         DispatchHook WillSendResponse, ListenerHook 0 WillSendResponse None,
         ExtRequestDidEnd],
      final_context =
        \<lparr>rc_request = request0 (Some ''{a}''),
         rc_response = Some (GqlObj None (Some ''r'') None (Some ''h'') [] None None None None),
         rc_context = [''_extensionStack'' \<mapsto> ExtensionStackValue []],
         rc_queryHash = Some ''#{a}'', rc_document = Some ''{a}'',
         rc_operation = Some \<lparr>op_name = None\<rparr>, rc_operationName = Some None\<rparr>,
      outcome = Inr (GqlObj None (Some ''r'') None (Some ''h'') [] None None None None)\<rparr>"
  by (auto simp add: model_defs fixture_defs Let_def)

lemma run_deferred:
  "processGraphQLRequest config0 engine0 (context_of (request0 (Some ''{d}''))) =
     \<lparr>trace =
        [PluginRequestDidStart 0, ExtRequestDidStart False False,
         DispatchDidStart ParsingStage, ListenerDidStart 0 ParsingStage,
         ExtDidStart ParsingStage, EngineParse ''{d}'', ExtDidEnd ParsingStage,
         DispatchDidEnd ParsingStage [], ListenerDidEnd 0 ParsingStage [],
         DispatchDidStart ValidationStage, ListenerDidStart 0 ValidationStage,
         ExtDidStart ValidationStage,
         EngineValidate ''{d}'' [Rule ''KnownTypeNames'', CannotDeferNonNullableFields],
         ExtDidEnd ValidationStage, DispatchDidEnd ValidationStage [],
         ListenerDidEnd 0 ValidationStage [],
         SetOperation (Some \<lparr>op_name = None\<rparr>) (Some None), DispatchHook DidResolveOperation,
         ListenerHook 0 DidResolveOperation None, DispatchDidStart ExecutionStage,
         ListenerDidStart 0 ExecutionStage, ExtDidStart ExecutionStage,
         EngineExecute ''{d}'' None, ExtDidEnd ExecutionStage, ExtFormat,
         DispatchDidEnd ExecutionStage [], ListenerDidEnd 0 ExecutionStage [],
         ExtWillSendResponse (GqlObj None (Some ''i'') None None [] None None None None),
         ExtRequestDidEnd],
      final_context =
        \<lparr>rc_request = request0 (Some ''{d}''),
         rc_response = Some (GqlObj None None None None []
           (Some (GqlObj None (Some ''i'') None None [] None None None None))
           (Some [''p'']) (Some RequestDidEndCallback) (Some [])),
         rc_context = [''_extensionStack'' \<mapsto> ExtensionStackValue []],
         rc_queryHash = Some ''#{d}'', rc_document = Some ''{d}'',
         rc_operation = Some \<lparr>op_name = None\<rparr>, rc_operationName = Some None\<rparr>,
      outcome = Inr (GqlObj None None None None []
           (Some (GqlObj None (Some ''i'') None None [] None None None None))
           (Some [''p'']) (Some RequestDidEndCallback) (Some []))\<rparr>"
  by (auto simp add: model_defs fixture_defs Let_def)

lemma run_denied:
  "processGraphQLRequest config_denying engine0 (context_of (request0 (Some ''{a}''))) =
     \<lparr>trace =
        [PluginRequestDidStart 0, ExtRequestDidStart False False,
         DispatchDidStart ParsingStage, ListenerDidStart 0 ParsingStage,
         ExtDidStart ParsingStage, EngineParse ''{a}'', ExtDidEnd ParsingStage,
         DispatchDidEnd ParsingStage [], ListenerDidEnd 0 ParsingStage [],
         DispatchDidStart ValidationStage, ListenerDidStart 0 ValidationStage,
         ExtDidStart ValidationStage,
         EngineValidate ''{a}'' [Rule ''KnownTypeNames'', CannotDeferNonNullableFields],
         ExtDidEnd ValidationStage, DispatchDidEnd ValidationStage [],
         ListenerDidEnd 0 ValidationStage [],
         SetOperation (Some \<lparr>op_name = None\<rparr>) (Some None), DispatchHook DidResolveOperation,
         ListenerHook 0 DidResolveOperation (Some denied),
         ExtRequestDidEnd],
      final_context =
        \<lparr>rc_request = request0 (Some ''{a}''),
         rc_response = Some (GqlObj None None None (Some ''h'') [] None None None None),
         rc_context = [''_extensionStack'' \<mapsto> ExtensionStackValue []],
         rc_queryHash = Some ''#{a}'', rc_document = Some ''{a}'',
         rc_operation = Some \<lparr>op_name = None\<rparr>, rc_operationName = Some None\<rparr>,
      outcome = Inl denied\<rparr>"
  by (auto simp add: model_defs fixture_defs Let_def)

lemma run_invalid:
  "processGraphQLRequest config0 engine0 (context_of (request0 (Some ''{x}''))) =
     \<lparr>trace =
        [PluginRequestDidStart 0, ExtRequestDidStart False False,
         DispatchDidStart ParsingStage, ListenerDidStart 0 ParsingStage,
         ExtDidStart ParsingStage, EngineParse ''{x}'', ExtDidEnd ParsingStage,
         DispatchDidEnd ParsingStage [], ListenerDidEnd 0 ParsingStage [],
         DispatchDidStart ValidationStage, ListenerDidStart 0 ValidationStage,
         ExtDidStart ValidationStage,
         EngineValidate ''{x}'' [Rule ''KnownTypeNames'', CannotDeferNonNullableFields],
         ExtDidEnd ValidationStage,
         DispatchDidEnd ValidationStage [\<lparr>message = ''Cannot query field x'', kind = Unclassified\<rparr>],
         ListenerDidEnd 0 ValidationStage [\<lparr>message = ''Cannot query field x'', kind = Unclassified\<rparr>],
         ExtWillSendResponse
           (GqlObj (Some [\<lparr>message = ''Cannot query field x'', kind = Validation\<rparr>])
              None None (Some ''h'') [] None None None None),
         DispatchHook WillSendResponse, ListenerHook 0 WillSendResponse None,
         ExtRequestDidEnd],
      final_context =
        \<lparr>rc_request = request0 (Some ''{x}''),
         rc_response = Some (GqlObj (Some [\<lparr>message = ''Cannot query field x'', kind = Validation\<rparr>])
              None None (Some ''h'') [] None None None None),
         rc_context = [''_extensionStack'' \<mapsto> ExtensionStackValue []],
         rc_queryHash = Some ''#{x}'', rc_document = Some ''{x}'',
         rc_operation = None, rc_operationName = None\<rparr>,
      outcome = Inr (GqlObj (Some [\<lparr>message = ''Cannot query field x'', kind = Validation\<rparr>])
              None None (Some ''h'') [] None None None None)\<rparr>"
  by (auto simp add: model_defs fixture_defs Let_def)

subsection \<open>Stage order of a whole request\<close>

text \<open>
  C9. In every request that reaches the execute stage, the stage events occur exactly
  once each and in this order: end of parsing, start of validation, end of validation,
  resolution of the operation, start of execution; the did-start and did-end events are
  those of the plugin dispatcher and of the extension stack. The resolution of the
  operation is the assignment of \<^verbatim>\<open>operation\<close> and \<^verbatim>\<open>operationName\<close> to the request
  context followed by the \<^verbatim>\<open>didResolveOperation\<close> hook: what is assigned is the operation
  that \<^verbatim>\<open>getOperationAST\<close> finds in the parsed document for the requested name, and its
  name or \<^verbatim>\<open>null\<close>, and both are still on the request context when the call ends.
\<close>

theorem stage_events_in_order:
  assumes "DispatchDidStart ExecutionStage \<in> set (trace (processGraphQLRequest cfg eng rc))"
  shows "\<exists>q doc. EngineParse q \<in> set (trace (processGraphQLRequest cfg eng rc))
           \<and> graphql_parse eng q = Inr doc
           \<and> filter is_stage_event (trace (processGraphQLRequest cfg eng rc)) =
               stage_order (getOperationAST eng doc (operationName (rc_request rc)))
           \<and> rc_document (final_context (processGraphQLRequest cfg eng rc)) = Some doc
           \<and> rc_operation (final_context (processGraphQLRequest cfg eng rc)) =
               getOperationAST eng doc (operationName (rc_request rc))
           \<and> rc_operationName (final_context (processGraphQLRequest cfg eng rc)) =
               Some (operationNameOf (getOperationAST eng doc (operationName (rc_request rc))))"
proof (cases "dataSourcesConflict cfg rc")
  case True
  with assms show ?thesis
    by (auto simp: process_conflict dest: initEvents_events)
next
  case False
  let ?p = "pipeline cfg eng (initializeExtensionStack cfg) (requestDispatcher cfg rc)
              (initializedContext cfg rc)"
  have init: "filter is_stage_event (initEvents cfg rc) = []"
    by (rule stage_filter_low) (auto dest: initEvents_events)
  from False assms have "DispatchDidStart ExecutionStage \<in> set (trace ?p)"
    by (auto simp: process_ok dest: initEvents_events)
  from pipeline_order [OF this] obtain q doc where
    "EngineParse q \<in> set (trace ?p)" and "graphql_parse eng q = Inr doc"
    and "filter is_stage_event (trace ?p) =
           stage_order (getOperationAST eng doc (operationName (rc_request rc)))"
    and "rc_document (final_context ?p) = Some doc"
    and "rc_operation (final_context ?p) =
           getOperationAST eng doc (operationName (rc_request rc))"
    and "rc_operationName (final_context ?p) =
           Some (operationNameOf (getOperationAST eng doc (operationName (rc_request rc))))"
    by (auto simp: initializedContext_frame [OF False])
  with init False show ?thesis
    by (auto simp: process_ok)
qed

theorem stage_events_in_order_witness:
  "DispatchDidStart ExecutionStage
     \<in> set (trace (processGraphQLRequest config0 engine0 (context_of (request0 (Some ''{a}'')))))
   \<and> filter is_stage_event
        (trace (processGraphQLRequest config0 engine0 (context_of (request0 (Some ''{a}''))))) =
      [ExtDidEnd ParsingStage, DispatchDidEnd ParsingStage [],
       DispatchDidStart ValidationStage, ExtDidStart ValidationStage,
       ExtDidEnd ValidationStage, DispatchDidEnd ValidationStage [],
       SetOperation (Some \<lparr>op_name = None\<rparr>) (Some None),
       DispatchHook DidResolveOperation,
       DispatchDidStart ExecutionStage, ExtDidStart ExecutionStage]
   \<and> rc_operation (final_context
        (processGraphQLRequest config0 engine0 (context_of (request0 (Some ''{a}''))))) =
       Some \<lparr>op_name = None\<rparr>
   \<and> rc_operationName (final_context
        (processGraphQLRequest config0 engine0 (context_of (request0 (Some ''{a}''))))) =
       Some None"
proof -
  let ?res = "processGraphQLRequest config0 engine0 (context_of (request0 (Some ''{a}'')))"
  have h: "DispatchDidStart ExecutionStage \<in> set (trace ?res)"
    by (simp add: run_plain)
  from stage_events_in_order [OF h] obtain q doc where
    q: "EngineParse q \<in> set (trace ?res)" and doc: "graphql_parse engine0 q = Inr doc"
    and r: "filter is_stage_event (trace ?res) =
           stage_order (getOperationAST engine0 doc
             (operationName (rc_request (context_of (request0 (Some ''{a}''))))))"
      "rc_operation (final_context ?res) =
           getOperationAST engine0 doc
             (operationName (rc_request (context_of (request0 (Some ''{a}'')))))"
      "rc_operationName (final_context ?res) =
           Some (operationNameOf (getOperationAST engine0 doc
             (operationName (rc_request (context_of (request0 (Some ''{a}'')))))))"
    by blast
  have opn: "getOperationAST engine0 doc
      (operationName (rc_request (context_of (request0 (Some ''{a}''))))) = Some \<lparr>op_name = None\<rparr>"
    by (simp add: engine0_def context_of_def request0_def)
  from h r show ?thesis
    by (simp add: opn stage_order_def operationNameOf_def)
qed

subsection \<open>The end of the per-request scope\<close>

lemma pipeline_returns:
  assumes "outcome (pipeline cfg eng st d rc) = Inr out"
  shows "\<exists>pre. trace (pipeline cfg eng st d rc) = pre @ [ExtRequestDidEnd]
           \<and> (\<forall>e \<in> set pre. ev_stage e = 2 \<or> 4 \<le> ev_stage e \<or> (\<exists>h r. e = ExtRequestDidStart h r))"
proof (cases "snd (resolveQuery cfg eng (rc_request rc))")
  case (Inl e)
  with assms show ?thesis by (simp add: pipeline_rejected)
next
  case (Inr r)
  then show ?thesis
    by (auto simp: pipeline_resolved
        dest: resolveQuery_events invokeDidStartHook_events tryBlock_events)
qed

text \<open>
  C2. Whenever \<^verbatim>\<open>processGraphQLRequest\<close> returns a response, deferred or not, the
  end-callback of the per-request scope is invoked exactly once, by the cleanup block
  (the last entry of the trace). The cleanup block tests the variable \<open>isDeferred\<close> of
  line 190, which the declaration of line 249 shadows, so a deferred outcome does not
  postpone the end-callback; the envelope nevertheless carries it for the consumer of
  the patch stream.
\<close>

theorem requestDidEnd_invoked_in_cleanup:
  assumes "outcome (processGraphQLRequest cfg eng rc) = Inr out"
  shows "\<exists>pre. trace (processGraphQLRequest cfg eng rc) = pre @ [ExtRequestDidEnd]
           \<and> ExtRequestDidEnd \<notin> set pre"
proof (cases "dataSourcesConflict cfg rc")
  case True
  with assms show ?thesis by (simp add: process_conflict)
next
  case False
  with assms have "outcome (pipeline cfg eng (initializeExtensionStack cfg)
      (requestDispatcher cfg rc) (initializedContext cfg rc)) = Inr out"
    by (simp add: process_ok)
  from pipeline_returns [OF this] obtain pre where
    pre: "trace (pipeline cfg eng (initializeExtensionStack cfg)
      (requestDispatcher cfg rc) (initializedContext cfg rc)) = pre @ [ExtRequestDidEnd]"
    and lv: "\<forall>e \<in> set pre. ev_stage e = 2 \<or> 4 \<le> ev_stage e \<or> (\<exists>h r. e = ExtRequestDidStart h r)"
    by blast
  have "ExtRequestDidEnd \<notin> set (initEvents cfg rc @ pre)"
    using lv by (auto dest: initEvents_events)
  moreover have "trace (processGraphQLRequest cfg eng rc) = (initEvents cfg rc @ pre) @ [ExtRequestDidEnd]"
    using False pre by (simp add: process_ok)
  ultimately show ?thesis by blast
qed

theorem requestDidEnd_invoked_for_deferred:
  "outcome (processGraphQLRequest config0 engine0 (context_of (request0 (Some ''{d}'')))) =
     Inr (GqlObj None None None None []
           (Some (GqlObj None (Some ''i'') None None [] None None None None))
           (Some [''p'']) (Some RequestDidEndCallback) (Some []))
   \<and> isDeferredGraphQLResponse (GqlObj None None None None []
           (Some (GqlObj None (Some ''i'') None None [] None None None None))
           (Some [''p'']) (Some RequestDidEndCallback) (Some []))
   \<and> (\<exists>pre. trace (processGraphQLRequest config0 engine0 (context_of (request0 (Some ''{d}'')))) =
          pre @ [ExtRequestDidEnd] \<and> ExtRequestDidEnd \<notin> set pre)"
proof -
  have h: "outcome (processGraphQLRequest config0 engine0 (context_of (request0 (Some ''{d}'')))) =
     Inr (GqlObj None None None None []
           (Some (GqlObj None (Some ''i'') None None [] None None None None))
           (Some [''p'']) (Some RequestDidEndCallback) (Some []))"
    by (simp add: run_deferred)
  from requestDidEnd_invoked_in_cleanup [OF h] h show ?thesis
    by (simp add: isDeferredGraphQLResponse_def)
qed

subsection \<open>A rejecting \<^verbatim>\<open>didResolveOperation\<close> hook\<close>

lemma operationStage_rejected:
  assumes "ListenerHook i DidResolveOperation (Some x) \<in> set (fst (operationStage cfg eng st d rc doc))"
  shows "snd (snd (operationStage cfg eng st d rc doc)) = Inl x"
    and "rc_response (fst (snd (operationStage cfg eng st d rc doc))) = rc_response rc"
    and "\<forall>e \<in> set (fst (operationStage cfg eng st d rc doc)). ev_stage e \<le> 6"
proof -
  from assms have "ListenerHook i DidResolveOperation (Some x)
      \<in> set (fst (invokeHookAsync DidResolveOperation d (resolveOperation eng rc doc)))"
    by (auto simp: operationStage_trace split: option.splits dest: executionStage_events)
  then have rej: "snd (invokeHookAsync DidResolveOperation d (resolveOperation eng rc doc)) = Some x"
    by (rule invokeHookAsync_rejected)
  show "snd (snd (operationStage cfg eng st d rc doc)) = Inl x"
    and "rc_response (fst (snd (operationStage cfg eng st d rc doc))) = rc_response rc"
    by (simp_all add: operationStage_rest rej)
  show "\<forall>e \<in> set (fst (operationStage cfg eng st d rc doc)). ev_stage e \<le> 6"
    by (auto simp: operationStage_trace rej dest: invokeHookAsync_events)
qed

lemma validationStage_rejected:
  assumes "ListenerHook i DidResolveOperation (Some x) \<in> set (fst (validationStage cfg eng st d rc doc))"
  shows "snd (snd (validationStage cfg eng st d rc doc)) = Inl x"
    and "rc_response (fst (snd (validationStage cfg eng st d rc doc))) = rc_response rc"
    and "\<forall>e \<in> set (fst (validationStage cfg eng st d rc doc)). ev_stage e \<le> 6"
proof -
  from assms have ok: "snd (validate cfg eng doc) = []"
    and op: "ListenerHook i DidResolveOperation (Some x)
      \<in> set (fst (operationStage cfg eng st d (rc\<lparr>rc_document := Some doc\<rparr>) doc))"
    by (auto simp: validationStage_trace validate_def Let_def split: if_splits
        dest: invokeDidStartHook_events didEnd_events sendResponse_events)
  note r = operationStage_rejected [OF op]
  show "snd (snd (validationStage cfg eng st d rc doc)) = Inl x"
    and "rc_response (fst (snd (validationStage cfg eng st d rc doc))) = rc_response rc"
    using r(1,2) by (simp_all add: validationStage_rest ok)
  show "\<forall>e \<in> set (fst (validationStage cfg eng st d rc doc)). ev_stage e \<le> 6"
    using r(3) ok
    by (auto simp: validationStage_trace validate_def Let_def
        dest: invokeDidStartHook_events didEnd_events)
qed

lemma tryBlock_rejected:
  assumes "ListenerHook i DidResolveOperation (Some x) \<in> set (fst (tryBlock cfg eng st d rc q cbs))"
  shows "snd (snd (tryBlock cfg eng st d rc q cbs)) = Inl x"
    and "rc_response (fst (snd (tryBlock cfg eng st d rc q cbs))) = rc_response rc"
    and "\<forall>e \<in> set (fst (tryBlock cfg eng st d rc q cbs)). ev_stage e \<le> 6"
proof -
  from assms obtain doc where ok: "graphql_parse eng q = Inr doc"
    and v: "ListenerHook i DidResolveOperation (Some x)
      \<in> set (fst (validationStage cfg eng st d rc doc))"
    by (auto simp: tryBlock_trace split: sum.splits dest: didEnd_events sendResponse_events)
  note r = validationStage_rejected [OF v]
  show "snd (snd (tryBlock cfg eng st d rc q cbs)) = Inl x"
    and "rc_response (fst (snd (tryBlock cfg eng st d rc q cbs))) = rc_response rc"
    using r(1,2) by (simp_all add: tryBlock_rest ok)
  show "\<forall>e \<in> set (fst (tryBlock cfg eng st d rc q cbs)). ev_stage e \<le> 6"
    using r(3) by (auto simp: tryBlock_trace ok dest: didEnd_events)
qed

lemma pipeline_hook_rejected:
  assumes "ListenerHook i DidResolveOperation (Some x) \<in> set (trace (pipeline cfg eng st d rc))"
  shows "outcome (pipeline cfg eng st d rc) = Inl x"
    and "rc_response (final_context (pipeline cfg eng st d rc)) = rc_response rc"
    and "\<forall>e \<in> set (trace (pipeline cfg eng st d rc)). ev_stage e \<le> 6"
    and "last (trace (pipeline cfg eng st d rc)) = ExtRequestDidEnd"
proof -
  from assms obtain r where ok: "snd (resolveQuery cfg eng (rc_request rc)) = Inr r"
    by (cases "snd (resolveQuery cfg eng (rc_request rc))")
       (auto simp: pipeline_rejected dest: resolveQuery_events)
  with assms have t: "ListenerHook i DidResolveOperation (Some x)
      \<in> set (fst (tryBlock cfg eng st d (rc\<lparr>rc_queryHash := Some (r_queryHash r)\<rparr>) (r_query r)
                 (snd (invokeDidStartHook ParsingStage d))))"
    by (auto simp: pipeline_resolved dest: resolveQuery_events invokeDidStartHook_events)
  note res = tryBlock_rejected [OF t]
  show "outcome (pipeline cfg eng st d rc) = Inl x"
    and "rc_response (final_context (pipeline cfg eng st d rc)) = rc_response rc"
    and "last (trace (pipeline cfg eng st d rc)) = ExtRequestDidEnd"
    using res(1,2) by (simp_all add: pipeline_resolved [OF ok])
  show "\<forall>e \<in> set (trace (pipeline cfg eng st d rc)). ev_stage e \<le> 6"
    using res(3)
    by (auto simp: pipeline_resolved [OF ok] dest: resolveQuery_events invokeDidStartHook_events)
qed

text \<open>
  C3, as the code has it. When a listener's \<^verbatim>\<open>didResolveOperation\<close> hook rejects with
  \<open>x\<close>, the orchestrator does not catch it: the promise of \<^verbatim>\<open>processGraphQLRequest\<close> is
  rejected with \<open>x\<close>, after the cleanup block has invoked the end-callback of the
  per-request scope. No response is sent and the persisted response is untouched; the
  execution did-start hook has not been invoked, so there is no execution end-callback
  and none is informed of the error.
\<close>

theorem didResolveOperation_rejection_propagates:
  assumes "ListenerHook i DidResolveOperation (Some x)
             \<in> set (trace (processGraphQLRequest cfg eng rc))"
  shows "outcome (processGraphQLRequest cfg eng rc) = Inl x
       \<and> rc_response (final_context (processGraphQLRequest cfg eng rc)) = rc_response rc
       \<and> last (trace (processGraphQLRequest cfg eng rc)) = ExtRequestDidEnd
       \<and> (\<forall>g. ExtWillSendResponse g \<notin> set (trace (processGraphQLRequest cfg eng rc)))
       \<and> DispatchHook WillSendResponse \<notin> set (trace (processGraphQLRequest cfg eng rc))
       \<and> DispatchDidStart ExecutionStage \<notin> set (trace (processGraphQLRequest cfg eng rc))
       \<and> (\<forall>errs. DispatchDidEnd ExecutionStage errs \<notin> set (trace (processGraphQLRequest cfg eng rc)))"
proof (cases "dataSourcesConflict cfg rc")
  case True
  with assms show ?thesis
    by (auto simp: process_conflict dest: initEvents_events)
next
  case False
  let ?p = "pipeline cfg eng (initializeExtensionStack cfg) (requestDispatcher cfg rc)
              (initializedContext cfg rc)"
  from False assms have mem: "ListenerHook i DidResolveOperation (Some x) \<in> set (trace ?p)"
    by (auto simp: process_ok dest: initEvents_events)
  note r = pipeline_hook_rejected [OF mem]
  from mem have ne: "trace ?p \<noteq> []" by auto
  have lv: "\<forall>e \<in> set (trace (processGraphQLRequest cfg eng rc)). ev_stage e \<le> 6"
    using r(3) False by (auto simp: process_ok dest: initEvents_events)
  have "outcome (processGraphQLRequest cfg eng rc) = Inl x"
    and "rc_response (final_context (processGraphQLRequest cfg eng rc)) = rc_response rc"
    and "last (trace (processGraphQLRequest cfg eng rc)) = ExtRequestDidEnd"
    using r(1,2,4) ne False
    by (simp_all add: process_ok initializedContext_frame)
  moreover from lv have "\<forall>g. ExtWillSendResponse g \<notin> set (trace (processGraphQLRequest cfg eng rc))"
    and "DispatchHook WillSendResponse \<notin> set (trace (processGraphQLRequest cfg eng rc))"
    and "DispatchDidStart ExecutionStage \<notin> set (trace (processGraphQLRequest cfg eng rc))"
    and "\<forall>errs. DispatchDidEnd ExecutionStage errs \<notin> set (trace (processGraphQLRequest cfg eng rc))"
    by fastforce+
  ultimately show ?thesis by blast
qed

theorem didResolveOperation_rejection_witness:
  "ListenerHook 0 DidResolveOperation (Some denied)
     \<in> set (trace (processGraphQLRequest config_denying engine0 (context_of (request0 (Some ''{a}'')))))
   \<and> outcome (processGraphQLRequest config_denying engine0 (context_of (request0 (Some ''{a}'')))) =
       Inl denied
   \<and> last (trace (processGraphQLRequest config_denying engine0 (context_of (request0 (Some ''{a}''))))) =
       ExtRequestDidEnd
   \<and> DispatchDidStart ExecutionStage
       \<notin> set (trace (processGraphQLRequest config_denying engine0 (context_of (request0 (Some ''{a}'')))))"
proof -
  have h: "ListenerHook 0 DidResolveOperation (Some denied)
     \<in> set (trace (processGraphQLRequest config_denying engine0 (context_of (request0 (Some ''{a}'')))))"
    by (simp add: run_denied)
  from didResolveOperation_rejection_propagates [OF h] h show ?thesis by blast
qed

text \<open>
  The claim as written fails on this request: the hook rejects, and the call ends in a
  rejection, not in a response.
\<close>

theorem didResolveOperation_rejection_counterexample:
  "outcome (processGraphQLRequest config_denying engine0 (context_of (request0 (Some ''{a}'')))) =
     Inl denied
   \<and> trace (processGraphQLRequest config_denying engine0 (context_of (request0 (Some ''{a}'')))) =
       [PluginRequestDidStart 0, ExtRequestDidStart False False,
        DispatchDidStart ParsingStage, ListenerDidStart 0 ParsingStage,
        ExtDidStart ParsingStage, EngineParse ''{a}'', ExtDidEnd ParsingStage,
        DispatchDidEnd ParsingStage [], ListenerDidEnd 0 ParsingStage [],
        DispatchDidStart ValidationStage, ListenerDidStart 0 ValidationStage,
        ExtDidStart ValidationStage,
        EngineValidate ''{a}'' [Rule ''KnownTypeNames'', CannotDeferNonNullableFields],
        ExtDidEnd ValidationStage, DispatchDidEnd ValidationStage [],
        ListenerDidEnd 0 ValidationStage [],
         SetOperation (Some \<lparr>op_name = None\<rparr>) (Some None), DispatchHook DidResolveOperation,
        ListenerHook 0 DidResolveOperation (Some denied),
        ExtRequestDidEnd]
   \<and> rc_response (final_context
        (processGraphQLRequest config_denying engine0 (context_of (request0 (Some ''{a}''))))) =
       Some (GqlObj None None None (Some ''h'') [] None None None None)"
  by (simp add: run_denied)

subsection \<open>Failures of the query resolution\<close>

lemma process_resolution_failure:
  assumes "\<not> dataSourcesConflict cfg rc"
    and "snd (resolveQuery cfg eng (rc_request rc)) = Inl e"
  shows "rejected_unsent (processGraphQLRequest cfg eng rc) rc e"
proof -
  from assms(2) have "snd (resolveQuery cfg eng (rc_request (initializedContext cfg rc))) = Inl e"
    by (simp add: initializedContext_frame [OF assms(1)])
  from pipeline_rejected [OF this] assms(1) show ?thesis
    by (auto simp: rejected_unsent_def process_ok initializedContext_frame
        dest: initEvents_events resolveQuery_events)
qed

text \<open>
  C1, as the code has it. A failure of the query-resolution stage is not caught:
  \<^verbatim>\<open>processGraphQLRequest\<close> is rejected with the error of the stage, that is
  \<open>InvalidRequest\<close> for a missing query string, an unsupported version or a hash
  mismatch, \<open>PersistedQueryNotSupported\<close> without a configured cache and
  \<open>PersistedQueryNotFound\<close> for a cache miss. No response is built or sent, and the
  per-request scope is never started.
\<close>

theorem resolution_failure_rejects:
  assumes "\<not> dataSourcesConflict cfg rc"
  shows
    "(request_persistedQuery (rc_request rc) = None
        \<and> (query (rc_request rc) = None \<or> query (rc_request rc) = Some [])
      \<longrightarrow> rejected_unsent (processGraphQLRequest cfg eng rc) rc
            (InvalidGraphQLRequestError ''Must provide query string.''))
   \<and> (request_persistedQuery (rc_request rc) = Some pq \<and> config_cache cfg = None
      \<longrightarrow> rejected_unsent (processGraphQLRequest cfg eng rc) rc PersistedQueryNotSupportedError)
   \<and> (request_persistedQuery (rc_request rc) = Some pq \<and> config_cache cfg = Some cache
        \<and> version pq \<noteq> 1
      \<longrightarrow> rejected_unsent (processGraphQLRequest cfg eng rc) rc
            (InvalidGraphQLRequestError ''Unsupported persisted query version''))
   \<and> (request_persistedQuery (rc_request rc) = Some pq \<and> config_cache cfg = Some cache
        \<and> version pq = 1 \<and> query (rc_request rc) = None
        \<and> (cache_get cache (''apq:'' @ sha256Hash pq) = None
             \<or> cache_get cache (''apq:'' @ sha256Hash pq) = Some [])
      \<longrightarrow> rejected_unsent (processGraphQLRequest cfg eng rc) rc PersistedQueryNotFoundError)
   \<and> (request_persistedQuery (rc_request rc) = Some pq \<and> config_cache cfg = Some cache
        \<and> version pq = 1 \<and> query (rc_request rc) = Some q
        \<and> sha256Hash pq \<noteq> computeQueryHash eng q
      \<longrightarrow> rejected_unsent (processGraphQLRequest cfg eng rc) rc
            (InvalidGraphQLRequestError ''provided sha does not match query''))"
proof (intro conjI impI)
  assume "request_persistedQuery (rc_request rc) = None
        \<and> (query (rc_request rc) = None \<or> query (rc_request rc) = Some [])"
  then have "snd (resolveQuery cfg eng (rc_request rc)) =
      Inl (InvalidGraphQLRequestError ''Must provide query string.'')"
    by (auto simp: resolveQuery_def)
  then show "rejected_unsent (processGraphQLRequest cfg eng rc) rc
            (InvalidGraphQLRequestError ''Must provide query string.'')"
    by (rule process_resolution_failure [OF assms])
next
  assume "request_persistedQuery (rc_request rc) = Some pq \<and> config_cache cfg = None"
  then have "snd (resolveQuery cfg eng (rc_request rc)) = Inl PersistedQueryNotSupportedError"
    by (auto simp: resolveQuery_def)
  then show "rejected_unsent (processGraphQLRequest cfg eng rc) rc PersistedQueryNotSupportedError"
    by (rule process_resolution_failure [OF assms])
next
  assume "request_persistedQuery (rc_request rc) = Some pq \<and> config_cache cfg = Some cache
        \<and> version pq \<noteq> 1"
  then have "snd (resolveQuery cfg eng (rc_request rc)) =
      Inl (InvalidGraphQLRequestError ''Unsupported persisted query version'')"
    by (auto simp: resolveQuery_def)
  then show "rejected_unsent (processGraphQLRequest cfg eng rc) rc
            (InvalidGraphQLRequestError ''Unsupported persisted query version'')"
    by (rule process_resolution_failure [OF assms])
next
  assume "request_persistedQuery (rc_request rc) = Some pq \<and> config_cache cfg = Some cache
        \<and> version pq = 1 \<and> query (rc_request rc) = None
        \<and> (cache_get cache (''apq:'' @ sha256Hash pq) = None
             \<or> cache_get cache (''apq:'' @ sha256Hash pq) = Some [])"
  then have "snd (resolveQuery cfg eng (rc_request rc)) = Inl PersistedQueryNotFoundError"
    by (auto simp: resolveQuery_def Let_def)
  then show "rejected_unsent (processGraphQLRequest cfg eng rc) rc PersistedQueryNotFoundError"
    by (rule process_resolution_failure [OF assms])
next
  assume "request_persistedQuery (rc_request rc) = Some pq \<and> config_cache cfg = Some cache
        \<and> version pq = 1 \<and> query (rc_request rc) = Some q
        \<and> sha256Hash pq \<noteq> computeQueryHash eng q"
  then have "snd (resolveQuery cfg eng (rc_request rc)) =
      Inl (InvalidGraphQLRequestError ''provided sha does not match query'')"
    by (auto simp: resolveQuery_def Let_def)
  then show "rejected_unsent (processGraphQLRequest cfg eng rc) rc
            (InvalidGraphQLRequestError ''provided sha does not match query'')"
    by (rule process_resolution_failure [OF assms])
qed

lemma fixtures_no_conflict [simp]:
  "\<not> dataSourcesConflict config0 rc"
  "\<not> dataSourcesConflict config_pq rc"
  "\<not> dataSourcesConflict config_denying rc"
  by (simp_all add: dataSourcesConflict_def config0_def config_pq_def config_denying_def)

lemma fixture_requests [simp]:
  "rc_request (context_of req) = req"
  "request_persistedQuery (request0 q) = None"
  "request_persistedQuery (request_pq q v h) = Some \<lparr>version = v, sha256Hash = h\<rparr>"
  "query (request0 q) = q"
  "query (request_pq q v h) = q"
  "config_cache config0 = None"
  "config_cache config_pq = Some cache0"
  by (simp_all add: context_of_def request0_def request_pq_def request_persistedQuery_def
      config_cache_def config0_def config_pq_def)

theorem resolution_failure_witness:
  "rejected_unsent (processGraphQLRequest config0 engine0 (context_of (request0 None)))
     (context_of (request0 None)) (InvalidGraphQLRequestError ''Must provide query string.'')
   \<and> rejected_unsent (processGraphQLRequest config0 engine0 (context_of (request_pq None 1 ''#{a}'')))
       (context_of (request_pq None 1 ''#{a}'')) PersistedQueryNotSupportedError
   \<and> rejected_unsent (processGraphQLRequest config_pq engine0 (context_of (request_pq None 2 ''#{a}'')))
       (context_of (request_pq None 2 ''#{a}''))
       (InvalidGraphQLRequestError ''Unsupported persisted query version'')
   \<and> rejected_unsent (processGraphQLRequest config_pq engine0 (context_of (request_pq None 1 ''#{b}'')))
       (context_of (request_pq None 1 ''#{b}'')) PersistedQueryNotFoundError
   \<and> rejected_unsent
       (processGraphQLRequest config_pq engine0 (context_of (request_pq (Some ''{b}'') 1 ''#{a}'')))
       (context_of (request_pq (Some ''{b}'') 1 ''#{a}''))
       (InvalidGraphQLRequestError ''provided sha does not match query'')"
proof -
  have c0: "\<not> dataSourcesConflict config0 rc" and c1: "\<not> dataSourcesConflict config_pq rc" for rc
    by simp_all
  have miss: "cache_get cache0 (''apq:'' @ ''#{b}'') = None"
    by (simp add: cache0_def)
  have mismatch: "''#{a}'' \<noteq> computeQueryHash engine0 ''{b}''"
    by (simp add: computeQueryHash_def engine0_def)
  show ?thesis
    using resolution_failure_rejects [where cfg = config0 and eng = engine0
        and rc = "context_of (request0 None)", OF c0]
      resolution_failure_rejects [where cfg = config0 and eng = engine0
        and rc = "context_of (request_pq None 1 ''#{a}'')"
        and pq = "\<lparr>version = 1, sha256Hash = ''#{a}''\<rparr>", OF c0]
      resolution_failure_rejects [where cfg = config_pq and eng = engine0
        and rc = "context_of (request_pq None 2 ''#{a}'')"
        and pq = "\<lparr>version = 2, sha256Hash = ''#{a}''\<rparr>" and cache = cache0, OF c1]
      resolution_failure_rejects [where cfg = config_pq and eng = engine0
        and rc = "context_of (request_pq None 1 ''#{b}'')"
        and pq = "\<lparr>version = 1, sha256Hash = ''#{b}''\<rparr>" and cache = cache0, OF c1]
      resolution_failure_rejects [where cfg = config_pq and eng = engine0
        and rc = "context_of (request_pq (Some ''{b}'') 1 ''#{a}'')"
        and pq = "\<lparr>version = 1, sha256Hash = ''#{a}''\<rparr>" and cache = cache0
        and q = "''{b}''", OF c1]
      miss mismatch
    by simp
qed

text \<open>
  The claim as written fails on a request without a query string: the call ends in a
  rejection, no response is returned and the persisted response is as it was.
\<close>

theorem resolution_failure_counterexample:
  "outcome (processGraphQLRequest config0 engine0 (context_of (request0 None))) =
     Inl \<lparr>message = ''Must provide query string.'', kind = InvalidRequest\<rparr>
   \<and> trace (processGraphQLRequest config0 engine0 (context_of (request0 None))) =
       [PluginRequestDidStart 0]
   \<and> rc_response (final_context (processGraphQLRequest config0 engine0 (context_of (request0 None)))) =
       Some (GqlObj None None None (Some ''h'') [] None None None None)"
  by (auto simp add: model_defs fixture_defs Let_def)

subsection \<open>The query hash\<close>

text \<open>
  C8. For a request with query text and no persisted-query extension, the \<open>queryHash\<close>
  that the pipeline puts on the request context is the SHA-256 hex digest of the exact
  query string. It is set whenever the text is non-empty and the initialisation
  succeeded; otherwise the call is rejected and the field is left as it was.
\<close>

theorem queryHash_is_digest:
  assumes "query (rc_request rc) = Some q"
    and "request_persistedQuery (rc_request rc) = None"
  shows "(q \<noteq> [] \<and> \<not> dataSourcesConflict cfg rc \<longrightarrow>
            rc_queryHash (final_context (processGraphQLRequest cfg eng rc)) =
              Some (computeQueryHash eng q))
       \<and> (rc_queryHash (final_context (processGraphQLRequest cfg eng rc)) = rc_queryHash rc
            \<or> rc_queryHash (final_context (processGraphQLRequest cfg eng rc)) =
                Some (computeQueryHash eng q))
       \<and> computeQueryHash eng q = sha256_hex eng q"
proof (cases "dataSourcesConflict cfg rc")
  case True
  then show ?thesis
    by (simp add: process_conflict computeQueryHash_def)
next
  case False
  note frame = initializedContext_frame [OF False]
  show ?thesis
  proof (cases "q = []")
    case True
    with assms have "snd (resolveQuery cfg eng (rc_request (initializedContext cfg rc))) =
        Inl (InvalidGraphQLRequestError ''Must provide query string.'')"
      by (simp add: resolveQuery_def frame)
    from pipeline_rejected [OF this] True False show ?thesis
      by (simp add: process_ok frame computeQueryHash_def)
  next
    case q: False
    with assms have "snd (resolveQuery cfg eng (rc_request (initializedContext cfg rc))) =
        Inr \<lparr>r_query = q, r_queryHash = computeQueryHash eng q,
             persistedQueryHit = False, persistedQueryRegister = False\<rparr>"
      by (simp add: resolveQuery_def frame)
    from pipeline_resolved [OF this] False show ?thesis
      by (simp add: process_ok computeQueryHash_def)
  qed
qed

theorem queryHash_is_digest_witness:
  "query (rc_request (context_of (request0 (Some ''{a}'')))) = Some ''{a}''
   \<and> request_persistedQuery (rc_request (context_of (request0 (Some ''{a}'')))) = None
   \<and> ''{a}'' \<noteq> [] \<and> \<not> dataSourcesConflict config0 (context_of (request0 (Some ''{a}'')))
   \<and> rc_queryHash (final_context
        (processGraphQLRequest config0 engine0 (context_of (request0 (Some ''{a}''))))) =
       Some (sha256_hex engine0 ''{a}'')"
proof -
  have h1: "query (rc_request (context_of (request0 (Some ''{a}'')))) = Some ''{a}''"
    and h2: "request_persistedQuery (rc_request (context_of (request0 (Some ''{a}'')))) = None"
    by simp_all
  from queryHash_is_digest [OF h1 h2, of config0 engine0] h1 h2 show ?thesis
    by (simp add: computeQueryHash_def)
qed

subsection \<open>Registering a persisted query\<close>




text \<open>The stages do not read the persisted-query options.\<close>

lemma persistedQueries_irrelevant [simp]:
  "validate (cfg\<lparr>persistedQueries := x\<rparr>) = validate cfg"
  "execute (cfg\<lparr>persistedQueries := x\<rparr>) = execute cfg"
  "formatOutput (cfg\<lparr>persistedQueries := x\<rparr>) = formatOutput cfg"
  "initializeExtensionStack (cfg\<lparr>persistedQueries := x\<rparr>) = initializeExtensionStack cfg"
  "initializeRequestListenerDispatcher (cfg\<lparr>persistedQueries := x\<rparr>) =
     initializeRequestListenerDispatcher cfg"
  "initializeDataSources (cfg\<lparr>persistedQueries := x\<rparr>) = initializeDataSources cfg"
  "dataSourcesConflict (cfg\<lparr>persistedQueries := x\<rparr>) = dataSourcesConflict cfg"
  by (simp_all add: fun_eq_iff validate_def execute_def formatOutput_def
      initializeExtensionStack_def initializeRequestListenerDispatcher_def
      initializeDataSources_def dataSourcesConflict_def Let_def
      cong: option.case_cong sum.case_cong)

lemma persistedQueries_irrelevant_stages [simp]:
  "executionStage (cfg\<lparr>persistedQueries := x\<rparr>) = executionStage cfg"
  "operationStage (cfg\<lparr>persistedQueries := x\<rparr>) = operationStage cfg"
  "validationStage (cfg\<lparr>persistedQueries := x\<rparr>) = validationStage cfg"
  "tryBlock (cfg\<lparr>persistedQueries := x\<rparr>) = tryBlock cfg"
proof -
  show e: "executionStage (cfg\<lparr>persistedQueries := x\<rparr>) = executionStage cfg"
    by (simp add: fun_eq_iff executionStage_def Let_def split_beta cong: sum.case_cong)
  show o: "operationStage (cfg\<lparr>persistedQueries := x\<rparr>) = operationStage cfg"
    by (simp add: fun_eq_iff operationStage_def e Let_def split_beta cong: option.case_cong)
  show v: "validationStage (cfg\<lparr>persistedQueries := x\<rparr>) = validationStage cfg"
    by (simp add: fun_eq_iff validationStage_def o Let_def split_beta cong: if_cong)
  show "tryBlock (cfg\<lparr>persistedQueries := x\<rparr>) = tryBlock cfg"
    by (simp add: fun_eq_iff tryBlock_def v Let_def split_beta cong: sum.case_cong)
qed

lemma persistedQueries_irrelevant_init [simp]:
  "startContext (cfg\<lparr>persistedQueries := x\<rparr>) = startContext cfg"
  "requestDispatcher (cfg\<lparr>persistedQueries := x\<rparr>) = requestDispatcher cfg"
  "initEvents (cfg\<lparr>persistedQueries := x\<rparr>) = initEvents cfg"
  "initializedContext (cfg\<lparr>persistedQueries := x\<rparr>) = initializedContext cfg"
proof -
  show s: "startContext (cfg\<lparr>persistedQueries := x\<rparr>) = startContext cfg"
    by (simp add: fun_eq_iff startContext_def)
  show "requestDispatcher (cfg\<lparr>persistedQueries := x\<rparr>) = requestDispatcher cfg"
    and "initEvents (cfg\<lparr>persistedQueries := x\<rparr>) = initEvents cfg"
    and "initializedContext (cfg\<lparr>persistedQueries := x\<rparr>) = initializedContext cfg"
    by (simp_all add: fun_eq_iff requestDispatcher_def initEvents_def initializedContext_def s
        cong: sum.case_cong)
qed











subsection \<open>What a finalize pass overwrites\<close>

lemma spread_response_fields [simp]:
  "errors (spread_response po r) = errors r"
  "data (spread_response po r) = data r"
  "extensions (spread_response po r) = extensions r"
  "preserved_fields po (spread_response po r)"
  by (cases po; cases "the po"; simp)+

lemma sendResponse_hook_called:
  assumes "DispatchHook WillSendResponse \<in> set (fst (sendResponse eng st d rc r))"
  shows "\<not> isDeferredGraphQLResponse r"
proof
  assume def: "isDeferredGraphQLResponse r"
  then obtain ir where "initialResponse r = Some ir" using isDeferred_initial by blast
  with def assms show False by (simp add: sendResponse_deferred)
qed

lemma sendResponse_finalize:
  assumes "DispatchHook WillSendResponse \<in> set (fst (sendResponse eng st d rc r))"
  shows "\<exists>g. ExtWillSendResponse g \<in> set (fst (sendResponse eng st d rc r))
           \<and> rc_response (fst (snd (sendResponse eng st d rc r))) = Some (stack_willSendResponse eng st g)
           \<and> preserved_fields (rc_response rc) g"
  using sendResponse_hook_called [OF assms]
  by (auto simp: sendResponse_complete intro!: exI [of _ "spread_response (rc_response rc) r"])

lemma executionStage_finalize:
  assumes "DispatchHook WillSendResponse \<in> set (fst (executionStage cfg eng st d rc doc))"
  shows "\<exists>g. ExtWillSendResponse g \<in> set (fst (executionStage cfg eng st d rc doc))
           \<and> rc_response (fst (snd (executionStage cfg eng st d rc doc))) = Some (stack_willSendResponse eng st g)
           \<and> preserved_fields (rc_response rc) g"
proof (cases "snd (execute cfg eng rc doc (operationName (rc_request rc)) (variables (rc_request rc)))")
  case (Inl err)
  with assms have "DispatchHook WillSendResponse
      \<in> set (fst (sendResponse eng st d rc (errorResponse (SingleError err) None)))"
    by (auto simp: executionStage_trace dest: invokeDidStartHook_events didEnd_events)
  from sendResponse_finalize [OF this] Inl show ?thesis
    by (auto simp: executionStage_trace executionStage_rest)
next
  case (Inr res)
  with assms have "DispatchHook WillSendResponse
      \<in> set (fst (sendResponse eng st d rc (formatOutput cfg eng st res)))"
    by (auto simp: executionStage_trace dest: invokeDidStartHook_events didEnd_events)
  from sendResponse_finalize [OF this] Inr show ?thesis
    by (auto simp: executionStage_trace executionStage_rest)
qed

lemma operationStage_finalize:
  assumes "DispatchHook WillSendResponse \<in> set (fst (operationStage cfg eng st d rc doc))"
  shows "\<exists>g. ExtWillSendResponse g \<in> set (fst (operationStage cfg eng st d rc doc))
           \<and> rc_response (fst (snd (operationStage cfg eng st d rc doc))) = Some (stack_willSendResponse eng st g)
           \<and> preserved_fields (rc_response rc) g"
proof (cases "snd (invokeHookAsync DidResolveOperation d (resolveOperation eng rc doc))")
  case (Some e)
  with assms show ?thesis
    by (auto simp: operationStage_trace dest: invokeHookAsync_events)
next
  case None
  with assms have "DispatchHook WillSendResponse
      \<in> set (fst (executionStage cfg eng st d (resolveOperation eng rc doc) doc))"
    by (auto simp: operationStage_trace dest: invokeHookAsync_events)
  from executionStage_finalize [OF this] None show ?thesis
    by (auto simp: operationStage_trace operationStage_rest)
qed

lemma validationStage_finalize:
  assumes "DispatchHook WillSendResponse \<in> set (fst (validationStage cfg eng st d rc doc))"
  shows "\<exists>g. ExtWillSendResponse g \<in> set (fst (validationStage cfg eng st d rc doc))
           \<and> rc_response (fst (snd (validationStage cfg eng st d rc doc))) = Some (stack_willSendResponse eng st g)
           \<and> preserved_fields (rc_response rc) g"
proof (cases "snd (validate cfg eng doc) = []")
  case True
  with assms have "DispatchHook WillSendResponse
      \<in> set (fst (operationStage cfg eng st d (rc\<lparr>rc_document := Some doc\<rparr>) doc))"
    by (auto simp: validationStage_trace validate_def Let_def
        dest: invokeDidStartHook_events didEnd_events)
  from operationStage_finalize [OF this] True show ?thesis
    by (auto simp: validationStage_trace validationStage_rest)
next
  case False
  with assms have "DispatchHook WillSendResponse
      \<in> set (fst (sendResponse eng st d (rc\<lparr>rc_document := Some doc\<rparr>)
                    (errorResponse (ErrorArray (snd (validate cfg eng doc))) (Some Validation))))"
    by (auto simp: validationStage_trace validate_def Let_def
        dest: invokeDidStartHook_events didEnd_events)
  from sendResponse_finalize [OF this] False show ?thesis
    by (auto simp: validationStage_trace validationStage_rest)
qed

lemma tryBlock_finalize:
  assumes "DispatchHook WillSendResponse \<in> set (fst (tryBlock cfg eng st d rc q cbs))"
  shows "\<exists>g. ExtWillSendResponse g \<in> set (fst (tryBlock cfg eng st d rc q cbs))
           \<and> rc_response (fst (snd (tryBlock cfg eng st d rc q cbs))) = Some (stack_willSendResponse eng st g)
           \<and> preserved_fields (rc_response rc) g"
proof (cases "graphql_parse eng q")
  case (Inr doc)
  with assms have "DispatchHook WillSendResponse \<in> set (fst (validationStage cfg eng st d rc doc))"
    by (auto simp: tryBlock_trace dest: didEnd_events)
  from validationStage_finalize [OF this] Inr show ?thesis
    by (auto simp: tryBlock_trace tryBlock_rest)
next
  case (Inl err)
  with assms have "DispatchHook WillSendResponse
      \<in> set (fst (sendResponse eng st d rc (errorResponse (SingleError err) (Some Syntax))))"
    by (auto simp: tryBlock_trace dest: didEnd_events)
  from sendResponse_finalize [OF this] Inl show ?thesis
    by (auto simp: tryBlock_trace tryBlock_rest)
qed

lemma pipeline_finalize:
  assumes "DispatchHook WillSendResponse \<in> set (trace (pipeline cfg eng st d rc))"
  shows "\<exists>g. ExtWillSendResponse g \<in> set (trace (pipeline cfg eng st d rc))
           \<and> rc_response (final_context (pipeline cfg eng st d rc)) = Some (stack_willSendResponse eng st g)
           \<and> preserved_fields (rc_response rc) g"
proof (cases "snd (resolveQuery cfg eng (rc_request rc))")
  case (Inl e)
  with assms show ?thesis
    by (auto simp: pipeline_rejected dest: resolveQuery_events)
next
  case (Inr r)
  with assms have "DispatchHook WillSendResponse
      \<in> set (fst (tryBlock cfg eng st d (rc\<lparr>rc_queryHash := Some (r_queryHash r)\<rparr>) (r_query r)
                 (snd (invokeDidStartHook ParsingStage d))))"
    by (auto simp: pipeline_resolved dest: resolveQuery_events invokeDidStartHook_events)
  from tryBlock_finalize [OF this] Inr show ?thesis
    by (auto simp: pipeline_resolved)
qed

text \<open>
  C5. A finalize pass for a complete response hands to the extension stack the persisted
  response with \<open>errors\<close>, \<open>data\<close> and \<open>extensions\<close> replaced by those of the response being
  sent; every other property of the persisted response (for instance \<open>http\<close>) is taken
  over unchanged, and what the extension stack returns for it becomes the persisted
  response. This holds for \<^verbatim>\<open>sendResponse\<close> on any complete response, and so for the one
  finalize pass of any request that calls the dispatcher's \<^verbatim>\<open>willSendResponse\<close>.
\<close>

theorem finalize_preserves_other_fields:
  "(\<not> isDeferredGraphQLResponse response \<longrightarrow>
      (\<exists>g. ExtWillSendResponse g \<in> set (fst (sendResponse eng st d rc0 response))
         \<and> fst (snd (sendResponse eng st d rc0 response)) =
             rc0\<lparr>rc_response := Some (stack_willSendResponse eng st g)\<rparr>
         \<and> errors g = errors response \<and> data g = data response
         \<and> extensions g = extensions response
         \<and> preserved_fields (rc_response rc0) g))
   \<and> (DispatchHook WillSendResponse \<in> set (trace (processGraphQLRequest cfg eng rc)) \<longrightarrow>
      (\<exists>g. ExtWillSendResponse g \<in> set (trace (processGraphQLRequest cfg eng rc))
         \<and> rc_response (final_context (processGraphQLRequest cfg eng rc)) =
             Some (stack_willSendResponse eng (initializeExtensionStack cfg) g)
         \<and> preserved_fields (rc_response rc) g))"
proof (intro conjI impI)
  assume "\<not> isDeferredGraphQLResponse response"
  then show "\<exists>g. ExtWillSendResponse g \<in> set (fst (sendResponse eng st d rc0 response))
         \<and> fst (snd (sendResponse eng st d rc0 response)) =
             rc0\<lparr>rc_response := Some (stack_willSendResponse eng st g)\<rparr>
         \<and> errors g = errors response \<and> data g = data response
         \<and> extensions g = extensions response
         \<and> preserved_fields (rc_response rc0) g"
    by (auto simp: sendResponse_complete
        intro!: exI [of _ "spread_response (rc_response rc0) response"])
next
  assume a: "DispatchHook WillSendResponse \<in> set (trace (processGraphQLRequest cfg eng rc))"
  show "\<exists>g. ExtWillSendResponse g \<in> set (trace (processGraphQLRequest cfg eng rc))
         \<and> rc_response (final_context (processGraphQLRequest cfg eng rc)) =
             Some (stack_willSendResponse eng (initializeExtensionStack cfg) g)
         \<and> preserved_fields (rc_response rc) g"
  proof (cases "dataSourcesConflict cfg rc")
    case True
    with a show ?thesis
      by (auto simp: process_conflict dest: initEvents_events)
  next
    case False
    with a have "DispatchHook WillSendResponse
        \<in> set (trace (pipeline cfg eng (initializeExtensionStack cfg) (requestDispatcher cfg rc)
                        (initializedContext cfg rc)))"
      by (auto simp: process_ok dest: initEvents_events)
    from pipeline_finalize [OF this] False show ?thesis
      by (auto simp: process_ok initializedContext_frame)
  qed
qed

theorem finalize_preserves_other_fields_witness:
  "\<not> isDeferredGraphQLResponse (GqlObj None (Some ''r'') None None [] None None None None)
   \<and> DispatchHook WillSendResponse
       \<in> set (trace (processGraphQLRequest config0 engine0 (context_of (request0 (Some ''{a}'')))))
   \<and> (\<exists>g. ExtWillSendResponse g
            \<in> set (trace (processGraphQLRequest config0 engine0 (context_of (request0 (Some ''{a}'')))))
         \<and> rc_response (final_context
              (processGraphQLRequest config0 engine0 (context_of (request0 (Some ''{a}''))))) =
             Some (stack_willSendResponse engine0 (initializeExtensionStack config0) g)
         \<and> http g = Some ''h'')
   \<and> (\<exists>g. ExtWillSendResponse g \<in> set (fst (sendResponse engine0 [] []
              (context_of (request0 (Some ''{a}'')))
              (GqlObj None (Some ''r'') None None [] None None None None)))
         \<and> data g = Some ''r'' \<and> http g = Some ''h'')"
proof -
  have h1: "\<not> isDeferredGraphQLResponse (GqlObj None (Some ''r'') None None [] None None None None)"
    by (simp add: isDeferredGraphQLResponse_def)
  have h2: "DispatchHook WillSendResponse
       \<in> set (trace (processGraphQLRequest config0 engine0 (context_of (request0 (Some ''{a}'')))))"
    by (simp add: run_plain)
  have p: "rc_response (context_of (request0 (Some ''{a}''))) =
      Some (GqlObj None None None (Some ''h'') [] None None None None)"
    by (simp add: context_of_def)
  note t = finalize_preserves_other_fields [where response = "GqlObj None (Some ''r'') None None [] None None None None"
      and eng = engine0 and st = "[]" and d = "[]" and ?rc0.0 = "context_of (request0 (Some ''{a}''))"
      and cfg = config0 and rc = "context_of (request0 (Some ''{a}''))"]
  from t h2 obtain g where g: "ExtWillSendResponse g
        \<in> set (trace (processGraphQLRequest config0 engine0 (context_of (request0 (Some ''{a}'')))))"
      "rc_response (final_context
          (processGraphQLRequest config0 engine0 (context_of (request0 (Some ''{a}''))))) =
         Some (stack_willSendResponse engine0 (initializeExtensionStack config0) g)"
      "preserved_fields (rc_response (context_of (request0 (Some ''{a}'')))) g"
    by blast
  from t h1 obtain g' where g': "ExtWillSendResponse g' \<in> set (fst (sendResponse engine0 [] []
              (context_of (request0 (Some ''{a}'')))
              (GqlObj None (Some ''r'') None None [] None None None None)))"
      "data g' = data (GqlObj None (Some ''r'') None None [] None None None None)"
      "preserved_fields (rc_response (context_of (request0 (Some ''{a}'')))) g'"
    by blast
  from g(3) have "http g = Some ''h''" by (simp add: p)
  moreover from g'(2,3) have "data g' = Some ''r''" and "http g' = Some ''h''"
    by (simp_all add: p)
  ultimately show ?thesis using h1 h2 g(1,2) g'(1) by blast
qed

subsection \<open>How often the dispatcher's \<^verbatim>\<open>willSendResponse\<close> is called\<close>

lemma hook_call_absent [simp]:
  "DispatchHook h \<notin> set (fst (invokeDidStartHook st' d))"
  "DispatchHook h \<notin> set (didEnd st' cbs errs)"
  "DispatchHook h \<notin> set (fst (invokeHookAsync h' d rc))"
  by (auto dest: invokeDidStartHook_shape didEnd_shape invokeHookAsync_shape)

lemma spread_keeps_plain:
  assumes "\<And>p. po = Some p \<Longrightarrow> \<not> isDeferredGraphQLResponse p"
  shows "\<not> isDeferredGraphQLResponse (spread_response po r)"
proof (cases po)
  case None
  then show ?thesis by (simp add: isDeferredGraphQLResponse_def)
next
  case (Some p)
  with assms have "\<not> isDeferredGraphQLResponse p" by simp
  with Some show ?thesis by (cases p) (simp add: isDeferredGraphQLResponse_def)
qed

lemma set_initialResponse_fields [simp]:
  "initialResponse (set_initialResponse r x) = Some x"
  "deferredPatches (set_initialResponse r x) = deferredPatches r"
  by (cases r; simp)+

lemma sendResponse_sent_as:
  assumes plain: "\<And>p. rc_response rc = Some p \<Longrightarrow> \<not> isDeferredGraphQLResponse p"
    and keeps: "\<And>g. \<not> isDeferredGraphQLResponse g \<Longrightarrow>
                  \<not> isDeferredGraphQLResponse (stack_willSendResponse eng st g)"
    and out: "snd (snd (sendResponse eng st d rc r)) = Inr out"
  shows "sent_as eng st (persisted_initial rc) (fst (sendResponse eng st d rc r)) out"
proof (cases "isDeferredGraphQLResponse r")
  case True
  then obtain ir where ir: "initialResponse r = Some ir" using isDeferred_initial by blast
  from True have "deferredPatches r \<noteq> None" by (simp add: isDeferredGraphQLResponse_def)
  with True ir out show ?thesis
    by (auto simp: sendResponse_deferred sent_as_def persisted_initial_def
        isDeferredGraphQLResponse_def)
next
  case False
  have "\<not> isDeferredGraphQLResponse (stack_willSendResponse eng st (spread_response (rc_response rc) r))"
    by (rule keeps, rule spread_keeps_plain, rule plain)
  with False out show ?thesis
    by (auto simp: sendResponse_complete sent_as_def split: option.splits)
qed

lemma sent_as_extend:
  assumes "sent_as eng st base evs out"
    and "DispatchHook WillSendResponse \<notin> set pre"
  shows "sent_as eng st base (pre @ evs) out"
  using assms by (auto simp: sent_as_def)

lemma executionStage_sent_as:
  assumes plain: "\<And>p. rc_response rc = Some p \<Longrightarrow> \<not> isDeferredGraphQLResponse p"
    and keeps: "\<And>g. \<not> isDeferredGraphQLResponse g \<Longrightarrow>
                  \<not> isDeferredGraphQLResponse (stack_willSendResponse eng st g)"
    and out: "snd (snd (executionStage cfg eng st d rc doc)) = Inr out"
  shows "sent_as eng st (persisted_initial rc) (fst (executionStage cfg eng st d rc doc)) out"
proof -
  obtain r where r: "snd (executionStage cfg eng st d rc doc) = snd (sendResponse eng st d rc r)"
    and t: "\<exists>pre. fst (executionStage cfg eng st d rc doc) = pre @ fst (sendResponse eng st d rc r)
              \<and> DispatchHook WillSendResponse \<notin> set pre"
  proof (cases "snd (execute cfg eng rc doc (operationName (rc_request rc)) (variables (rc_request rc)))")
    case (Inl err)
    show ?thesis
      by (rule that [of "errorResponse (SingleError err) None"])
         (simp_all add: executionStage_rest executionStage_trace Inl)
  next
    case (Inr res)
    show ?thesis
      by (rule that [of "formatOutput cfg eng st res"])
         (simp_all add: executionStage_rest executionStage_trace Inr)
  qed
  from out r have "snd (snd (sendResponse eng st d rc r)) = Inr out" by simp
  from sendResponse_sent_as [OF plain keeps this] t show ?thesis
    by (auto intro: sent_as_extend)
qed

lemma persisted_initial_frame [simp]:
  "persisted_initial (resolveOperation eng rc doc) = persisted_initial rc"
  "persisted_initial (rc\<lparr>rc_document := x\<rparr>) = persisted_initial rc"
  "persisted_initial (rc\<lparr>rc_queryHash := y\<rparr>) = persisted_initial rc"
  by (simp_all add: persisted_initial_def)

lemma operationStage_sent_as:
  assumes plain: "\<And>p. rc_response rc = Some p \<Longrightarrow> \<not> isDeferredGraphQLResponse p"
    and keeps: "\<And>g. \<not> isDeferredGraphQLResponse g \<Longrightarrow>
                  \<not> isDeferredGraphQLResponse (stack_willSendResponse eng st g)"
    and out: "snd (snd (operationStage cfg eng st d rc doc)) = Inr out"
  shows "sent_as eng st (persisted_initial rc) (fst (operationStage cfg eng st d rc doc)) out"
proof (cases "snd (invokeHookAsync DidResolveOperation d (resolveOperation eng rc doc))")
  case (Some e)
  with out show ?thesis by (simp add: operationStage_rest)
next
  case None
  with out have o: "snd (snd (executionStage cfg eng st d (resolveOperation eng rc doc) doc)) = Inr out"
    by (simp add: operationStage_rest)
  have "sent_as eng st (persisted_initial (resolveOperation eng rc doc))
      (fst (executionStage cfg eng st d (resolveOperation eng rc doc) doc)) out"
    by (rule executionStage_sent_as [OF _ keeps o]) (simp add: plain)
  then have "sent_as eng st (persisted_initial rc)
      ((SetOperation (rc_operation (resolveOperation eng rc doc))
          (rc_operationName (resolveOperation eng rc doc))
          # DispatchHook DidResolveOperation
          # fst (invokeHookAsync DidResolveOperation d (resolveOperation eng rc doc)))
       @ fst (executionStage cfg eng st d (resolveOperation eng rc doc) doc)) out"
    by (intro sent_as_extend) simp_all
  with None show ?thesis by (simp add: operationStage_trace)
qed

lemma validationStage_sent_as:
  assumes plain: "\<And>p. rc_response rc = Some p \<Longrightarrow> \<not> isDeferredGraphQLResponse p"
    and keeps: "\<And>g. \<not> isDeferredGraphQLResponse g \<Longrightarrow>
                  \<not> isDeferredGraphQLResponse (stack_willSendResponse eng st g)"
    and out: "snd (snd (validationStage cfg eng st d rc doc)) = Inr out"
  shows "sent_as eng st (persisted_initial rc) (fst (validationStage cfg eng st d rc doc)) out"
proof -
  let ?rc = "rc\<lparr>rc_document := Some doc\<rparr>"
  let ?pre = "DispatchDidStart ValidationStage # fst (invokeDidStartHook ValidationStage d)
     @ fst (validate cfg eng doc)
     @ DispatchDidEnd ValidationStage (snd (validate cfg eng doc))
     # didEnd ValidationStage (snd (invokeDidStartHook ValidationStage d)) (snd (validate cfg eng doc))"
  have pre: "DispatchHook WillSendResponse \<notin> set ?pre"
    by (simp add: validate_def Let_def)
  have plain': "\<And>p. rc_response ?rc = Some p \<Longrightarrow> \<not> isDeferredGraphQLResponse p"
    by (simp add: plain)
  show ?thesis
  proof (cases "snd (validate cfg eng doc) = []")
    case True
    with out have "snd (snd (operationStage cfg eng st d ?rc doc)) = Inr out"
      by (simp add: validationStage_rest)
    from operationStage_sent_as [OF plain' keeps this]
    have "sent_as eng st (persisted_initial rc) (?pre @ fst (operationStage cfg eng st d ?rc doc)) out"
      using pre by (intro sent_as_extend) simp_all
    with True show ?thesis by (simp add: validationStage_trace)
  next
    case False
    with out have "snd (snd (sendResponse eng st d ?rc
        (errorResponse (ErrorArray (snd (validate cfg eng doc))) (Some Validation)))) = Inr out"
      by (simp add: validationStage_rest)
    from sendResponse_sent_as [OF plain' keeps this]
    have "sent_as eng st (persisted_initial rc) (?pre @ fst (sendResponse eng st d ?rc
        (errorResponse (ErrorArray (snd (validate cfg eng doc))) (Some Validation)))) out"
      using pre by (intro sent_as_extend) simp_all
    with False show ?thesis by (simp add: validationStage_trace)
  qed
qed

lemma tryBlock_sent_as:
  assumes plain: "\<And>p. rc_response rc = Some p \<Longrightarrow> \<not> isDeferredGraphQLResponse p"
    and keeps: "\<And>g. \<not> isDeferredGraphQLResponse g \<Longrightarrow>
                  \<not> isDeferredGraphQLResponse (stack_willSendResponse eng st g)"
    and out: "snd (snd (tryBlock cfg eng st d rc q cbs)) = Inr out"
  shows "sent_as eng st (persisted_initial rc) (fst (tryBlock cfg eng st d rc q cbs)) out"
proof (cases "graphql_parse eng q")
  case (Inr doc)
  with out have "snd (snd (validationStage cfg eng st d rc doc)) = Inr out"
    by (simp add: tryBlock_rest)
  from validationStage_sent_as [OF plain keeps this]
  have "sent_as eng st (persisted_initial rc)
      (([ExtDidStart ParsingStage, EngineParse q, ExtDidEnd ParsingStage]
        @ DispatchDidEnd ParsingStage [] # didEnd ParsingStage cbs [])
       @ fst (validationStage cfg eng st d rc doc)) out"
    by (intro sent_as_extend) simp_all
  with Inr show ?thesis by (simp add: tryBlock_trace)
next
  case (Inl err)
  with out have "snd (snd (sendResponse eng st d rc (errorResponse (SingleError err) (Some Syntax)))) = Inr out"
    by (simp add: tryBlock_rest)
  from sendResponse_sent_as [OF plain keeps this]
  have "sent_as eng st (persisted_initial rc)
      (([ExtDidStart ParsingStage, EngineParse q, ExtDidEnd ParsingStage]
        @ DispatchDidEnd ParsingStage [err] # didEnd ParsingStage cbs [err])
       @ fst (sendResponse eng st d rc (errorResponse (SingleError err) (Some Syntax)))) out"
    by (intro sent_as_extend) simp_all
  with Inl show ?thesis by (simp add: tryBlock_trace)
qed

lemma sent_as_append:
  assumes "sent_as eng st base evs out"
    and "DispatchHook WillSendResponse \<notin> set post"
  shows "sent_as eng st base (evs @ post) out"
  using assms by (auto simp: sent_as_def)

lemma pipeline_sent_as:
  assumes plain: "\<And>p. rc_response rc = Some p \<Longrightarrow> \<not> isDeferredGraphQLResponse p"
    and keeps: "\<And>g. \<not> isDeferredGraphQLResponse g \<Longrightarrow>
                  \<not> isDeferredGraphQLResponse (stack_willSendResponse eng st g)"
    and out: "outcome (pipeline cfg eng st d rc) = Inr out"
  shows "sent_as eng st (persisted_initial rc) (trace (pipeline cfg eng st d rc)) out"
proof (cases "snd (resolveQuery cfg eng (rc_request rc))")
  case (Inl e)
  with out show ?thesis by (simp add: pipeline_rejected)
next
  case (Inr r)
  let ?rc = "rc\<lparr>rc_queryHash := Some (r_queryHash r)\<rparr>"
  let ?t = "tryBlock cfg eng st d ?rc (r_query r) (snd (invokeDidStartHook ParsingStage d))"
  let ?pre = "fst (resolveQuery cfg eng (rc_request rc))
        @ ExtRequestDidStart (persistedQueryHit r) (persistedQueryRegister r)
        # DispatchDidStart ParsingStage
        # fst (invokeDidStartHook ParsingStage d)"
  have pre: "DispatchHook WillSendResponse \<notin> set ?pre"
    by (auto dest: resolveQuery_events)
  have plain': "\<And>p. rc_response ?rc = Some p \<Longrightarrow> \<not> isDeferredGraphQLResponse p"
    by (simp add: plain)
  from out Inr have "snd (snd ?t) = Inr out" by (simp add: pipeline_resolved)
  from tryBlock_sent_as [OF plain' keeps this]
  have "sent_as eng st (persisted_initial rc) ((?pre @ fst ?t) @ [ExtRequestDidEnd]) out"
    using pre by (intro sent_as_append sent_as_extend) simp_all
  with Inr show ?thesis by (simp add: pipeline_resolved)
qed

text \<open>
  C6. Let the persisted response of the incoming request context be a plain response,
  and let the extension stack return plain responses for plain ones. Then in every
  request that returns, the dispatcher's \<^verbatim>\<open>willSendResponse\<close> hook is called exactly once
  if the outcome is a complete response and not at all if it is a deferred one. On the
  deferred path the extension stack is still given the merge of \<open>errors\<close>, \<open>data\<close> and
  \<open>extensions\<close> of the initial response into the initial response of the persisted
  response, and what it returns becomes the initial response of the outcome.
\<close>

theorem willSendResponse_once_or_never:
  assumes "outcome (processGraphQLRequest cfg eng rc) = Inr out"
    and "\<And>p. rc_response rc = Some p \<Longrightarrow> \<not> isDeferredGraphQLResponse p"
    and "\<And>g. \<not> isDeferredGraphQLResponse g \<Longrightarrow>
           \<not> isDeferredGraphQLResponse (stack_willSendResponse eng (initializeExtensionStack cfg) g)"
  shows "count_list (trace (processGraphQLRequest cfg eng rc)) (DispatchHook WillSendResponse) =
           (if isDeferredGraphQLResponse out then 0 else 1)
       \<and> (isDeferredGraphQLResponse out \<longrightarrow>
            (\<exists>g. ExtWillSendResponse g \<in> set (trace (processGraphQLRequest cfg eng rc))
               \<and> initialResponse out =
                   Some (stack_willSendResponse eng (initializeExtensionStack cfg) g)
               \<and> preserved_fields (persisted_initial rc) g))
       \<and> (isDeferredGraphQLResponse r \<and> initialResponse r = Some ir \<longrightarrow>
            (\<exists>g. sendResponse eng st d rc0 r =
                   ([ExtWillSendResponse g],
                    rc0\<lparr>rc_response := Some (set_initialResponse r (stack_willSendResponse eng st g))\<rparr>,
                    Inr (set_initialResponse r (stack_willSendResponse eng st g)))
               \<and> errors g = errors ir \<and> data g = data ir \<and> extensions g = extensions ir
               \<and> preserved_fields (persisted_initial rc0) g))"
proof -
  have send: "isDeferredGraphQLResponse r \<and> initialResponse r = Some ir \<longrightarrow>
            (\<exists>g. sendResponse eng st d rc0 r =
                   ([ExtWillSendResponse g],
                    rc0\<lparr>rc_response := Some (set_initialResponse r (stack_willSendResponse eng st g))\<rparr>,
                    Inr (set_initialResponse r (stack_willSendResponse eng st g)))
               \<and> errors g = errors ir \<and> data g = data ir \<and> extensions g = extensions ir
               \<and> preserved_fields (persisted_initial rc0) g)"
    by (auto simp: sendResponse_deferred persisted_initial_def)
  have ok: "\<not> dataSourcesConflict cfg rc"
    using assms(1) by (auto simp: process_conflict)
  let ?p = "pipeline cfg eng (initializeExtensionStack cfg) (requestDispatcher cfg rc)
              (initializedContext cfg rc)"
  from assms(1) ok have out: "outcome ?p = Inr out" by (simp add: process_ok)
  have plain: "\<And>p. rc_response (initializedContext cfg rc) = Some p \<Longrightarrow> \<not> isDeferredGraphQLResponse p"
    using assms(2) by (simp add: initializedContext_frame [OF ok])
  have base: "persisted_initial (initializedContext cfg rc) = persisted_initial rc"
    by (simp add: persisted_initial_def initializedContext_frame [OF ok])
  have init: "DispatchHook WillSendResponse \<notin> set (initEvents cfg rc)"
    by (auto dest: initEvents_events)
  from pipeline_sent_as [OF plain assms(3) out]
  have "sent_as eng (initializeExtensionStack cfg) (persisted_initial rc)
      (initEvents cfg rc @ trace ?p) out"
    using init by (simp add: base sent_as_extend)
  then have "sent_as eng (initializeExtensionStack cfg) (persisted_initial rc)
      (trace (processGraphQLRequest cfg eng rc)) out"
    using ok by (simp add: process_ok)
  with send show ?thesis
    unfolding sent_as_def by blast
qed

theorem willSendResponse_once_or_never_witness:
  "count_list (trace (processGraphQLRequest config0 engine0 (context_of (request0 (Some ''{a}''))))) 
      (DispatchHook WillSendResponse) = 1
   \<and> outcome (processGraphQLRequest config0 engine0 (context_of (request0 (Some ''{a}'')))) =
       Inr (GqlObj None (Some ''r'') None (Some ''h'') [] None None None None)
   \<and> count_list (trace (processGraphQLRequest config0 engine0 (context_of (request0 (Some ''{d}''))))) 
      (DispatchHook WillSendResponse) = 0
   \<and> outcome (processGraphQLRequest config0 engine0 (context_of (request0 (Some ''{d}'')))) =
       Inr (GqlObj None None None None []
           (Some (GqlObj None (Some ''i'') None None [] None None None None))
           (Some [''p'']) (Some RequestDidEndCallback) (Some []))"
proof -
  have plain: "\<And>p. rc_response (context_of req) = Some p \<Longrightarrow> \<not> isDeferredGraphQLResponse p" for req
    by (auto simp: context_of_def isDeferredGraphQLResponse_def)
  have keeps: "\<And>g. \<not> isDeferredGraphQLResponse g \<Longrightarrow>
      \<not> isDeferredGraphQLResponse (stack_willSendResponse engine0 (initializeExtensionStack config0) g)"
    by (simp add: engine0_def)
  have a: "outcome (processGraphQLRequest config0 engine0 (context_of (request0 (Some ''{a}'')))) =
       Inr (GqlObj None (Some ''r'') None (Some ''h'') [] None None None None)"
    by (simp add: run_plain)
  have d: "outcome (processGraphQLRequest config0 engine0 (context_of (request0 (Some ''{d}'')))) =
       Inr (GqlObj None None None None []
           (Some (GqlObj None (Some ''i'') None None [] None None None None))
           (Some [''p'']) (Some RequestDidEndCallback) (Some []))"
    by (simp add: run_deferred)
  from willSendResponse_once_or_never [OF a plain keeps]
  have "count_list (trace (processGraphQLRequest config0 engine0 (context_of (request0 (Some ''{a}'')))))
      (DispatchHook WillSendResponse) = 1"
    by (simp add: isDeferredGraphQLResponse_def)
  moreover from willSendResponse_once_or_never [OF d plain keeps]
  have "count_list (trace (processGraphQLRequest config0 engine0 (context_of (request0 (Some ''{d}'')))))
      (DispatchHook WillSendResponse) = 0"
    by (simp add: isDeferredGraphQLResponse_def)
  ultimately show ?thesis using a d by blast
qed

subsection \<open>Validation\<close>

lemma validate_eq:
  "validate cfg eng doc =
     ([ExtDidStart ValidationStage,
       EngineValidate doc (specifiedRules eng @ [CannotDeferNonNullableFields]
          @ (case validationRules cfg of Some custom \<Rightarrow> custom | None \<Rightarrow> [])),
       ExtDidEnd ValidationStage],
      graphql_validate eng (schema cfg) doc (specifiedRules eng @ [CannotDeferNonNullableFields]
          @ (case validationRules cfg of Some custom \<Rightarrow> custom | None \<Rightarrow> [])))"
  by (simp add: validate_def Let_def split: option.splits)

lemma errorResponse_fields [simp]:
  "errors (errorResponse (ErrorArray es) (Some k)) = Some (map (\<lambda>err. err\<lparr>kind := k\<rparr>) es)"
  "data (errorResponse es' cls) = None"
  "extensions (errorResponse es' cls) = None"
  by (simp_all add: errorResponse_def fromGraphQLError_def Let_def)

lemma validationStage_validates:
  assumes "EngineValidate doc' rules \<in> set (fst (validationStage cfg eng st d rc doc))"
  shows "doc' = doc"
    and "rules = specifiedRules eng @ [CannotDeferNonNullableFields]
          @ (case validationRules cfg of Some custom \<Rightarrow> custom | None \<Rightarrow> [])"
    and "graphql_validate eng (schema cfg) doc rules \<noteq> [] \<Longrightarrow>
          (\<forall>e \<in> set (fst (validationStage cfg eng st d rc doc)). ev_stage e = 5 \<or> ev_stage e = 8)
          \<and> (\<exists>g. ExtWillSendResponse g \<in> set (fst (validationStage cfg eng st d rc doc))
               \<and> errors g = Some (map (\<lambda>err. err\<lparr>kind := Validation\<rparr>)
                                   (graphql_validate eng (schema cfg) doc rules))
               \<and> data g = None
               \<and> (\<forall>out. snd (snd (validationStage cfg eng st d rc doc)) = Inr out \<longrightarrow>
                     out = stack_willSendResponse eng st g))"
proof -
  let ?rules = "specifiedRules eng @ [CannotDeferNonNullableFields]
          @ (case validationRules cfg of Some custom \<Rightarrow> custom | None \<Rightarrow> [])"
  from assms show eq: "doc' = doc" "rules = ?rules"
    by (auto simp: validationStage_trace validate_eq split: if_splits
        dest: invokeDidStartHook_shape didEnd_shape sendResponse_events operationStage_events)
  assume "graphql_validate eng (schema cfg) doc rules \<noteq> []"
  with eq have bad: "snd (validate cfg eng doc) \<noteq> []"
    and errs: "snd (validate cfg eng doc) = graphql_validate eng (schema cfg) doc rules"
    by (simp_all add: validate_eq)
  let ?rc = "rc\<lparr>rc_document := Some doc\<rparr>"
  let ?r = "errorResponse (ErrorArray (snd (validate cfg eng doc))) (Some Validation)"
  let ?g = "spread_response (rc_response ?rc) ?r"
  have lv: "\<forall>e \<in> set (fst (validationStage cfg eng st d rc doc)). ev_stage e = 5 \<or> ev_stage e = 8"
    using bad
    by (auto simp: validationStage_trace validate_eq
        dest: invokeDidStartHook_events didEnd_events sendResponse_events)
  have "ExtWillSendResponse ?g \<in> set (fst (validationStage cfg eng st d rc doc))"
    using bad by (simp add: validationStage_trace sendResponse_complete)
  moreover have "errors ?g = Some (map (\<lambda>err. err\<lparr>kind := Validation\<rparr>)
                                   (graphql_validate eng (schema cfg) doc rules))"
    and "data ?g = None"
    by (simp_all add: errs)
  moreover have "\<forall>out. snd (snd (validationStage cfg eng st d rc doc)) = Inr out \<longrightarrow>
                     out = stack_willSendResponse eng st ?g"
    using bad by (auto simp: validationStage_rest sendResponse_complete split: option.splits)
  ultimately show "(\<forall>e \<in> set (fst (validationStage cfg eng st d rc doc)). ev_stage e = 5 \<or> ev_stage e = 8)
          \<and> (\<exists>g. ExtWillSendResponse g \<in> set (fst (validationStage cfg eng st d rc doc))
               \<and> errors g = Some (map (\<lambda>err. err\<lparr>kind := Validation\<rparr>)
                                   (graphql_validate eng (schema cfg) doc rules))
               \<and> data g = None
               \<and> (\<forall>out. snd (snd (validationStage cfg eng st d rc doc)) = Inr out \<longrightarrow>
                     out = stack_willSendResponse eng st g))"
    using lv by blast
qed


lemma validationStage_outcome:
  assumes "EngineValidate doc' rules \<in> set (fst (validationStage cfg eng st d rc doc))"
  shows "validation_outcome cfg eng st doc' rules (fst (validationStage cfg eng st d rc doc))
           (snd (snd (validationStage cfg eng st d rc doc)))"
  using validationStage_validates [OF assms]
  unfolding validation_outcome_def by fastforce

lemma validation_outcome_extend:
  assumes "validation_outcome cfg eng st doc rules evs out"
    and "\<And>e. e \<in> set pre \<Longrightarrow> ev_stage e \<le> 5"
    and "\<And>e. e \<in> set post \<Longrightarrow> ev_stage e \<le> 5"
  shows "validation_outcome cfg eng st doc rules (pre @ evs @ post) out"
  using assms unfolding validation_outcome_def by fastforce

lemma tryBlock_outcome:
  assumes "EngineValidate doc rules \<in> set (fst (tryBlock cfg eng st d rc q cbs))"
  shows "validation_outcome cfg eng st doc rules (fst (tryBlock cfg eng st d rc q cbs))
           (snd (snd (tryBlock cfg eng st d rc q cbs)))"
proof (cases "graphql_parse eng q")
  case (Inl err)
  with assms show ?thesis
    by (auto simp: tryBlock_trace dest: didEnd_shape sendResponse_events)
next
  case (Inr doc0)
  with assms have "EngineValidate doc rules \<in> set (fst (validationStage cfg eng st d rc doc0))"
    by (auto simp: tryBlock_trace dest: didEnd_shape)
  from validationStage_outcome [OF this]
  have "validation_outcome cfg eng st doc rules
      (([ExtDidStart ParsingStage, EngineParse q, ExtDidEnd ParsingStage]
         @ DispatchDidEnd ParsingStage [] # didEnd ParsingStage cbs [])
       @ fst (validationStage cfg eng st d rc doc0) @ [])
      (snd (snd (validationStage cfg eng st d rc doc0)))"
    by (rule validation_outcome_extend) (auto dest: didEnd_events)
  with Inr show ?thesis by (simp add: tryBlock_trace tryBlock_rest)
qed

lemma pipeline_outcome:
  assumes "EngineValidate doc rules \<in> set (trace (pipeline cfg eng st d rc))"
  shows "validation_outcome cfg eng st doc rules (trace (pipeline cfg eng st d rc))
           (outcome (pipeline cfg eng st d rc))"
proof (cases "snd (resolveQuery cfg eng (rc_request rc))")
  case (Inl e)
  with assms show ?thesis
    by (auto simp: pipeline_rejected dest: resolveQuery_events)
next
  case (Inr r)
  let ?t = "tryBlock cfg eng st d (rc\<lparr>rc_queryHash := Some (r_queryHash r)\<rparr>) (r_query r)
              (snd (invokeDidStartHook ParsingStage d))"
  from Inr assms have "EngineValidate doc rules \<in> set (fst ?t)"
    by (auto simp: pipeline_resolved dest: resolveQuery_events invokeDidStartHook_events)
  from tryBlock_outcome [OF this]
  have "validation_outcome cfg eng st doc rules
      ((fst (resolveQuery cfg eng (rc_request rc))
        @ ExtRequestDidStart (persistedQueryHit r) (persistedQueryRegister r)
        # DispatchDidStart ParsingStage
        # fst (invokeDidStartHook ParsingStage d))
       @ fst ?t @ [ExtRequestDidEnd])
      (snd (snd ?t))"
    by (rule validation_outcome_extend)
       (auto dest: resolveQuery_events invokeDidStartHook_events)
  with Inr show ?thesis by (simp add: pipeline_resolved)
qed

lemma process_validation_outcome:
  assumes "EngineValidate doc rules \<in> set (trace (processGraphQLRequest cfg eng rc))"
  shows "validation_outcome cfg eng (initializeExtensionStack cfg) doc rules
      (trace (processGraphQLRequest cfg eng rc)) (outcome (processGraphQLRequest cfg eng rc))"
proof -
  have ok: "\<not> dataSourcesConflict cfg rc"
  proof
    assume "dataSourcesConflict cfg rc"
    with assms have "EngineValidate doc rules \<in> set (initEvents cfg rc)"
      by (simp add: process_conflict)
    from initEvents_events [OF this] show False by simp
  qed
  let ?p = "pipeline cfg eng (initializeExtensionStack cfg) (requestDispatcher cfg rc)
              (initializedContext cfg rc)"
  from assms ok have "EngineValidate doc rules \<in> set (trace ?p)"
    by (auto simp: process_ok dest: initEvents_events)
  from pipeline_outcome [OF this]
  have "validation_outcome cfg eng (initializeExtensionStack cfg) doc rules
      (initEvents cfg rc @ trace ?p @ []) (outcome ?p)"
    by (rule validation_outcome_extend) (auto dest: initEvents_events)
  with ok show ?thesis
    by (simp add: process_ok)
qed

text \<open>Every document that was parsed is validated, and no other document is.\<close>

lemma tryBlock_validates:
  assumes "graphql_parse eng q = Inr doc"
  shows "EngineValidate doc (specifiedRules eng @ [CannotDeferNonNullableFields]
            @ (case validationRules cfg of Some custom \<Rightarrow> custom | None \<Rightarrow> []))
           \<in> set (fst (tryBlock cfg eng st d rc q cbs))"
    and "graphql_validate eng (schema cfg) doc (specifiedRules eng @ [CannotDeferNonNullableFields]
            @ (case validationRules cfg of Some custom \<Rightarrow> custom | None \<Rightarrow> [])) = [] \<Longrightarrow>
         DispatchHook DidResolveOperation \<in> set (fst (tryBlock cfg eng st d rc q cbs))"
  using assms
  by (simp_all add: tryBlock_trace validationStage_trace validate_eq operationStage_trace)

lemma tryBlock_validated:
  assumes "EngineValidate doc rules \<in> set (fst (tryBlock cfg eng st d rc q cbs))"
  shows "graphql_parse eng q = Inr doc"
proof (cases "graphql_parse eng q")
  case (Inl err)
  with assms show ?thesis
    by (auto simp: tryBlock_trace dest: didEnd_shape sendResponse_events)
next
  case (Inr doc0)
  with assms have "EngineValidate doc rules \<in> set (fst (validationStage cfg eng st d rc doc0))"
    by (auto simp: tryBlock_trace dest: didEnd_shape)
  from validationStage_validates(1) [OF this] Inr show ?thesis by simp
qed

lemma pipeline_validated:
  assumes "EngineValidate doc rules \<in> set (trace (pipeline cfg eng st d rc))"
  shows "\<exists>r. snd (resolveQuery cfg eng (rc_request rc)) = Inr r
           \<and> graphql_parse eng (r_query r) = Inr doc"
proof (cases "snd (resolveQuery cfg eng (rc_request rc))")
  case (Inl e)
  with assms show ?thesis
    by (auto simp: pipeline_rejected dest: resolveQuery_events)
next
  case (Inr r)
  with assms have "EngineValidate doc rules
      \<in> set (fst (tryBlock cfg eng st d (rc\<lparr>rc_queryHash := Some (r_queryHash r)\<rparr>) (r_query r)
                 (snd (invokeDidStartHook ParsingStage d))))"
    by (auto simp: pipeline_resolved dest: resolveQuery_events invokeDidStartHook_events)
  from tryBlock_validated [OF this] Inr show ?thesis by simp
qed

lemma pipeline_validates:
  assumes "EngineParse q \<in> set (trace (pipeline cfg eng st d rc))"
    and "graphql_parse eng q = Inr doc"
  shows "EngineValidate doc (specifiedRules eng @ [CannotDeferNonNullableFields]
            @ (case validationRules cfg of Some custom \<Rightarrow> custom | None \<Rightarrow> []))
           \<in> set (trace (pipeline cfg eng st d rc))"
    and "graphql_validate eng (schema cfg) doc (specifiedRules eng @ [CannotDeferNonNullableFields]
            @ (case validationRules cfg of Some custom \<Rightarrow> custom | None \<Rightarrow> [])) = [] \<Longrightarrow>
         DispatchHook DidResolveOperation \<in> set (trace (pipeline cfg eng st d rc))"
    and "EngineValidate doc' rules \<in> set (trace (pipeline cfg eng st d rc)) \<Longrightarrow> doc' = doc"
proof -
  from pipeline_parses [OF assms(1)] obtain r where
    r: "snd (resolveQuery cfg eng (rc_request rc)) = Inr r" and q: "r_query r = q"
    by blast
  from assms(2) q have doc: "graphql_parse eng (r_query r) = Inr doc" by simp
  show "EngineValidate doc (specifiedRules eng @ [CannotDeferNonNullableFields]
            @ (case validationRules cfg of Some custom \<Rightarrow> custom | None \<Rightarrow> []))
           \<in> set (trace (pipeline cfg eng st d rc))"
    using tryBlock_validates(1) [OF doc, of cfg] by (simp add: pipeline_resolved [OF r])
  show "DispatchHook DidResolveOperation \<in> set (trace (pipeline cfg eng st d rc))"
    if "graphql_validate eng (schema cfg) doc (specifiedRules eng @ [CannotDeferNonNullableFields]
            @ (case validationRules cfg of Some custom \<Rightarrow> custom | None \<Rightarrow> [])) = []"
    using tryBlock_validates(2) [OF doc that] by (simp add: pipeline_resolved [OF r])
  show "doc' = doc" if "EngineValidate doc' rules \<in> set (trace (pipeline cfg eng st d rc))"
    using pipeline_validated [OF that] r doc by auto
qed

text \<open>
  C7. Every document that the engine has parsed for a request is validated, and against
  exactly this rule set: the engine's default rules, then \<open>CannotDeferNonNullableFields\<close>,
  then the custom rules of the configuration, if any; nothing else is validated in the
  request. If this validation returns one or more errors, the response handed on for
  sending carries exactly these errors, each of kind \<open>Validation\<close>, and no data; it is what
  a returning call returns (as the extension stack passes it on); and neither the
  resolution of the operation nor the execute stage is reached. If the validation returns
  no error, the request goes on to the resolution of the operation.
\<close>

theorem validation_rules_and_failure:
  assumes "EngineParse q \<in> set (trace (processGraphQLRequest cfg eng rc))"
    and "graphql_parse eng q = Inr doc"
  shows "EngineValidate doc (specifiedRules eng @ [CannotDeferNonNullableFields]
            @ (case validationRules cfg of Some custom \<Rightarrow> custom | None \<Rightarrow> []))
           \<in> set (trace (processGraphQLRequest cfg eng rc))
       \<and> (\<forall>doc' rules. EngineValidate doc' rules \<in> set (trace (processGraphQLRequest cfg eng rc)) \<longrightarrow>
            doc' = doc
            \<and> rules = specifiedRules eng @ [CannotDeferNonNullableFields]
                        @ (case validationRules cfg of Some custom \<Rightarrow> custom | None \<Rightarrow> []))
       \<and> (graphql_validate eng (schema cfg) doc (specifiedRules eng @ [CannotDeferNonNullableFields]
            @ (case validationRules cfg of Some custom \<Rightarrow> custom | None \<Rightarrow> [])) \<noteq> [] \<longrightarrow>
            (\<forall>doc' name. EngineExecute doc' name \<notin> set (trace (processGraphQLRequest cfg eng rc)))
            \<and> DispatchDidStart ExecutionStage \<notin> set (trace (processGraphQLRequest cfg eng rc))
            \<and> ExtDidStart ExecutionStage \<notin> set (trace (processGraphQLRequest cfg eng rc))
            \<and> (\<forall>opn name. SetOperation opn name \<notin> set (trace (processGraphQLRequest cfg eng rc)))
            \<and> DispatchHook DidResolveOperation \<notin> set (trace (processGraphQLRequest cfg eng rc))
            \<and> (\<exists>g. ExtWillSendResponse g \<in> set (trace (processGraphQLRequest cfg eng rc))
                   \<and> errors g = Some (map (\<lambda>err. err\<lparr>kind := Validation\<rparr>)
                       (graphql_validate eng (schema cfg) doc
                          (specifiedRules eng @ [CannotDeferNonNullableFields]
                           @ (case validationRules cfg of Some custom \<Rightarrow> custom | None \<Rightarrow> []))))
                   \<and> data g = None
                   \<and> (\<forall>out. outcome (processGraphQLRequest cfg eng rc) = Inr out \<longrightarrow>
                         out = stack_willSendResponse eng (initializeExtensionStack cfg) g)))
       \<and> (graphql_validate eng (schema cfg) doc (specifiedRules eng @ [CannotDeferNonNullableFields]
            @ (case validationRules cfg of Some custom \<Rightarrow> custom | None \<Rightarrow> [])) = [] \<longrightarrow>
            DispatchHook DidResolveOperation \<in> set (trace (processGraphQLRequest cfg eng rc)))"
proof -
  let ?rules = "specifiedRules eng @ [CannotDeferNonNullableFields]
            @ (case validationRules cfg of Some custom \<Rightarrow> custom | None \<Rightarrow> [])"
  let ?tr = "trace (processGraphQLRequest cfg eng rc)"
  have ok: "\<not> dataSourcesConflict cfg rc"
  proof
    assume "dataSourcesConflict cfg rc"
    with assms(1) have "EngineParse q \<in> set (initEvents cfg rc)"
      by (simp add: process_conflict)
    from initEvents_events [OF this] show False by simp
  qed
  let ?p = "pipeline cfg eng (initializeExtensionStack cfg) (requestDispatcher cfg rc)
              (initializedContext cfg rc)"
  have tr: "?tr = initEvents cfg rc @ trace ?p"
    by (simp add: process_ok [OF ok])
  from assms(1) have parsed: "EngineParse q \<in> set (trace ?p)"
    by (auto simp: tr dest: initEvents_events)
  note v = pipeline_validates [OF parsed assms(2)]
  from v(1) have mem: "EngineValidate doc ?rules \<in> set ?tr"
    by (simp add: tr)
  have valid: "DispatchHook DidResolveOperation \<in> set ?tr"
    if "graphql_validate eng (schema cfg) doc ?rules = []"
    using v(2) [OF that] by (simp add: tr)
  have only: "doc' = doc \<and> rules = ?rules" if h: "EngineValidate doc' rules \<in> set ?tr"
    for doc' rules
  proof
    from h have "EngineValidate doc' rules \<in> set (trace ?p)"
      by (auto simp: tr dest: initEvents_events)
    then show "doc' = doc" by (rule v(3))
    from process_validation_outcome [OF h] show "rules = ?rules"
      by (simp add: validation_outcome_def)
  qed
  have fails: "(\<forall>doc' name. EngineExecute doc' name \<notin> set ?tr)
      \<and> DispatchDidStart ExecutionStage \<notin> set ?tr
      \<and> ExtDidStart ExecutionStage \<notin> set ?tr
      \<and> (\<forall>opn name. SetOperation opn name \<notin> set ?tr)
      \<and> DispatchHook DidResolveOperation \<notin> set ?tr
      \<and> (\<exists>g. ExtWillSendResponse g \<in> set ?tr
             \<and> errors g = Some (map (\<lambda>err. err\<lparr>kind := Validation\<rparr>)
                                 (graphql_validate eng (schema cfg) doc ?rules))
             \<and> data g = None
             \<and> (\<forall>out. outcome (processGraphQLRequest cfg eng rc) = Inr out \<longrightarrow>
                   out = stack_willSendResponse eng (initializeExtensionStack cfg) g))"
    if bad: "graphql_validate eng (schema cfg) doc ?rules \<noteq> []"
  proof -
    from process_validation_outcome [OF mem] bad
    have lv: "\<forall>e \<in> set ?tr. ev_stage e \<noteq> 6 \<and> ev_stage e \<noteq> 7"
      and g: "\<exists>g. ExtWillSendResponse g \<in> set ?tr
             \<and> errors g = Some (map (\<lambda>err. err\<lparr>kind := Validation\<rparr>)
                                 (graphql_validate eng (schema cfg) doc ?rules))
             \<and> data g = None
             \<and> (\<forall>out. outcome (processGraphQLRequest cfg eng rc) = Inr out \<longrightarrow>
                   out = stack_willSendResponse eng (initializeExtensionStack cfg) g)"
      unfolding validation_outcome_def by blast+
    from lv have "\<forall>doc' name. EngineExecute doc' name \<notin> set ?tr"
      and "DispatchDidStart ExecutionStage \<notin> set ?tr"
      and "ExtDidStart ExecutionStage \<notin> set ?tr"
      and "\<forall>opn name. SetOperation opn name \<notin> set ?tr"
      and "DispatchHook DidResolveOperation \<notin> set ?tr"
      by fastforce+
    with g show ?thesis by blast
  qed
  from mem only fails valid show ?thesis by blast
qed

theorem validation_rules_and_failure_witness:
  "EngineParse ''{x}''
     \<in> set (trace (processGraphQLRequest config0 engine0 (context_of (request0 (Some ''{x}'')))))
   \<and> graphql_parse engine0 ''{x}'' = Inr ''{x}''
   \<and> EngineValidate ''{x}'' [Rule ''KnownTypeNames'', CannotDeferNonNullableFields]
     \<in> set (trace (processGraphQLRequest config0 engine0 (context_of (request0 (Some ''{x}'')))))
   \<and> graphql_validate engine0 (schema config0) ''{x}''
       [Rule ''KnownTypeNames'', CannotDeferNonNullableFields] \<noteq> []
   \<and> [Rule ''KnownTypeNames'', CannotDeferNonNullableFields] =
       specifiedRules engine0 @ [CannotDeferNonNullableFields]
         @ (case validationRules config0 of Some custom \<Rightarrow> custom | None \<Rightarrow> [])
   \<and> (\<forall>doc' name. EngineExecute doc' name
         \<notin> set (trace (processGraphQLRequest config0 engine0 (context_of (request0 (Some ''{x}''))))))
   \<and> (\<exists>g. ExtWillSendResponse g
            \<in> set (trace (processGraphQLRequest config0 engine0 (context_of (request0 (Some ''{x}'')))))
         \<and> errors g = Some [\<lparr>message = ''Cannot query field x'', kind = Validation\<rparr>])"
proof -
  let ?tr = "trace (processGraphQLRequest config0 engine0 (context_of (request0 (Some ''{x}''))))"
  have h: "EngineParse ''{x}'' \<in> set ?tr"
    by (simp add: run_invalid)
  have p: "graphql_parse engine0 ''{x}'' = Inr ''{x}''"
    by (simp add: engine0_def)
  have r: "specifiedRules engine0 @ [CannotDeferNonNullableFields]
         @ (case validationRules config0 of Some custom \<Rightarrow> custom | None \<Rightarrow> []) =
       [Rule ''KnownTypeNames'', CannotDeferNonNullableFields]"
    by (simp add: engine0_def config0_def)
  have v: "graphql_validate engine0 (schema config0) ''{x}''
       [Rule ''KnownTypeNames'', CannotDeferNonNullableFields] =
       [\<lparr>message = ''Cannot query field x'', kind = Unclassified\<rparr>]"
    by (simp add: engine0_def)
  note t = validation_rules_and_failure [OF h p, unfolded r]
  from t have m: "EngineValidate ''{x}'' [Rule ''KnownTypeNames'', CannotDeferNonNullableFields]
     \<in> set ?tr"
    by blast
  from t v have e: "\<forall>doc' name. EngineExecute doc' name \<notin> set ?tr"
    by simp
  from t v obtain g where "ExtWillSendResponse g \<in> set ?tr"
    and "errors g = Some (map (\<lambda>err. err\<lparr>kind := Validation\<rparr>)
           [\<lparr>message = ''Cannot query field x'', kind = Unclassified\<rparr>])"
    by auto
  then have "\<exists>g. ExtWillSendResponse g \<in> set ?tr
         \<and> errors g = Some [\<lparr>message = ''Cannot query field x'', kind = Validation\<rparr>]"
    by auto
  with h p m v r e show ?thesis by simp
qed

end
